theory Spec2Isabelle
  imports Complex_Main
begin

section \<open>Values\<close>

text \<open>
  The invoice and webhook routes of InvoiceFlow (routes/invoices.js, routes/webhooks.js,
  middleware/auth.js) over the tables of database/schema.sql.

  Numbers. The columns are modelled: a value stored into DECIMAL(p, s) is rounded to s
  decimals, half away from zero, and the statement is refused when the rounded value does
  not fit; a route that reads a row back reads the stored values. The arithmetic of the
  routes on JavaScript numbers is taken exact (rationals), without the binary rounding of
  a double. That rounding is many orders of magnitude below the half cent at which a
  column rounds, so it can move a stored value only when the exact value sits next to a
  rounding tie; the properties of money fields below are therefore stated for amounts of
  whole cents, where it cannot.

  Requests are typed: a numeric field of a body is a number or absent, a text field is a
  text or absent. The \<open>payment_method\<close> of mark-paid, whose default a property is about,
  can also be JSON null.

  Identifiers are the strings the routes pass around. The identifiers that \<open>uuidv4()\<close>
  draws and the clock \<open>new Date()\<close> are inputs of a request (\<open>env\<close> below).

  Of the store's own bookkeeping, \<open>created_at\<close> of an invoice is kept (the free plan's
  usage query reads it); \<open>updated_at\<close>, which a trigger maintains, is left out.
\<close>

type_synonym uuid = string

text \<open>A field of a JSON body that can be left out, be null, or carry a value.\<close>

datatype 'a field = Undefined | Null | Given 'a

record timestamp =
  t_year :: nat
  t_month :: nat
  t_day :: nat
  t_ms :: nat

text \<open>An instant in calendar fields; \<open>t_ms\<close> is the time of day in milliseconds.
  Comparison of two instants: calendar fields in order, then the time within the day.\<close>

definition ts_le :: "timestamp \<Rightarrow> timestamp \<Rightarrow> bool" where
  "ts_le a b =
     (t_year a < t_year b \<or> (t_year a = t_year b \<and>
       (t_month a < t_month b \<or> (t_month a = t_month b \<and>
         (t_day a < t_day b \<or> (t_day a = t_day b \<and> t_ms a \<le> t_ms b))))))"

text \<open>\<open>Date.prototype.setDate\<close>: the day of the month is replaced, the time of day stays.\<close>

definition setDate :: "timestamp \<Rightarrow> nat \<Rightarrow> timestamp" where
  "setDate t d = t\<lparr>t_day := d\<rparr>"

definition getFullYear :: "timestamp \<Rightarrow> nat" where
  "getFullYear t = t_year t"

datatype status = Draft | Pending | Paid | Overdue | Cancelled

text \<open>The column \<open>status\<close> carries a CHECK constraint: any other text is refused by the store.\<close>

definition status_of_string :: "string \<Rightarrow> status option" where
  "status_of_string x =
     (if x = ''draft'' then Some Draft
      else if x = ''pending'' then Some Pending
      else if x = ''paid'' then Some Paid
      else if x = ''overdue'' then Some Overdue
      else if x = ''cancelled'' then Some Cancelled
      else None)"

datatype plan = Free | Pro | Business

datatype pay_status = PayPending | Completed | PayFailed | Refunded

datatype sub_status = Active | SubCancelled | PastDue | Trialing

text \<open>
  What a request can end in besides success: an \<open>APIError\<close> thrown by a route (message,
  status code, code), a response written by a middleware (status code, error text), or the
  exception of a collaborator (PDF rendering, mail), which the error handler answers 500.
\<close>

datatype failure =
    APIError string nat string
  | Rejected nat string
  | CollaboratorError

text \<open>\<open>new APIError(message, statusCode)\<close>: the code defaults to \<open>INTERNAL_ERROR\<close>.\<close>

definition APIError2 :: "string \<Rightarrow> nat \<Rightarrow> failure" where
  "APIError2 msg st = APIError msg st ''INTERNAL_ERROR''"

section \<open>Column types\<close>

text \<open>Rounding to \<open>s\<close> decimals, ties away from zero, as the store's numeric type does.\<close>

definition dec_round :: "nat \<Rightarrow> rat \<Rightarrow> rat" where
  "dec_round s x =
     (if 0 \<le> x then of_int \<lfloor>x * 10 ^ s + 1 / 2\<rfloor> / 10 ^ s
      else - (of_int \<lfloor>- x * 10 ^ s + 1 / 2\<rfloor> / 10 ^ s))"

text \<open>DECIMAL(p, s) takes a value when its rounding has at most \<open>p - s\<close> digits before the
  point.\<close>

definition fits :: "nat \<Rightarrow> nat \<Rightarrow> rat \<Rightarrow> bool" where
  "fits p s x \<longleftrightarrow> \<bar>dec_round s x\<bar> < 10 ^ (p - s)"

text \<open>A nullable DECIMAL(p, s) column takes NULL and every value that fits.\<close>

definition decimal_ok :: "nat \<Rightarrow> nat \<Rightarrow> rat option \<Rightarrow> bool" where
  "decimal_ok p s v = (case v of None \<Rightarrow> True | Some x \<Rightarrow> fits p s x)"

text \<open>A nullable VARCHAR(n) column takes NULL and every text of at most \<open>n\<close> characters.\<close>

definition varchar_ok :: "nat \<Rightarrow> string option \<Rightarrow> bool" where
  "varchar_ok n v = (case v of None \<Rightarrow> True | Some x \<Rightarrow> length x \<le> n)"

text \<open>An amount of whole cents: rounding to two decimals leaves it as it is.\<close>

definition is_cents :: "rat \<Rightarrow> bool" where
  "is_cents x \<longleftrightarrow> dec_round 2 x = x"

section \<open>Tables\<close>

text \<open>A column without NOT NULL is an option. \<open>due_date\<close> of an invoice and \<open>amount\<close> of a
  payment are NOT NULL: they are options because a route can hand the store a row without
  them, which the store refuses.\<close>

record user =
  u_id :: uuid
  u_email :: string
  u_name :: string
  u_plan :: plan
  u_plan_expires_at :: "timestamp option"
  u_stripe_customer_id :: "string option"
  u_stripe_subscription_id :: "string option"
  u_is_active :: bool

record client =
  c_id :: uuid
  c_user_id :: uuid
  c_name :: string
  c_email :: string

record invoice =
  inv_id :: uuid
  inv_user_id :: uuid
  inv_client_id :: uuid
  inv_number :: string
  inv_status :: status
  inv_due_date :: "string option"
  inv_subtotal :: "rat option"
  inv_tax_rate :: "rat option"
  inv_tax_amount :: "rat option"
  inv_discount_amount :: "rat option"
  inv_total :: "rat option"
  inv_notes :: "string option"
  inv_terms :: "string option"
  inv_paid_at :: "timestamp option"
  inv_paid_amount :: "rat option"
  inv_payment_method :: "string option"
  inv_reminder_sent_at :: "timestamp option"
  inv_reminder_count :: int
  inv_created_at :: timestamp

record invoice_item =
  it_id :: uuid
  it_invoice_id :: uuid
  it_description :: "string option"
  it_quantity :: rat
  it_unit_price :: rat
  it_amount :: rat
  it_sort_order :: nat

record payment =
  p_id :: uuid
  p_invoice_id :: uuid
  p_user_id :: "uuid option"
  p_amount :: "rat option"
  p_payment_method :: "string option"
  p_stripe_payment_id :: "string option"
  p_status :: pay_status
  p_notes :: "string option"

record subscription =
  sub_id :: uuid
  sub_user_id :: uuid
  sub_stripe_subscription_id :: "string option"
  sub_stripe_customer_id :: "string option"
  sub_plan :: string
  sub_status :: sub_status
  sub_cancelled_at :: "timestamp option"

record audit_log =
  a_user_id :: "uuid option"
  a_action :: string
  a_entity_type :: string
  a_entity_id :: "uuid option"
  a_invoice_number :: "string option"
  a_total :: "rat option"

record db =
  users :: "user list"
  clients :: "client list"
  invoices :: "invoice list"
  invoice_items :: "invoice_item list"
  payments :: "payment list"
  subscriptions :: "subscription list"
  audit_logs :: "audit_log list"

definition empty_db :: db where
  "empty_db = \<lparr>users = [], clients = [], invoices = [], invoice_items = [],
     payments = [], subscriptions = [], audit_logs = []\<rparr>"

text \<open>\<open>.single()\<close>: exactly one row, anything else is an error.\<close>

fun single :: "'a list \<Rightarrow> 'a option" where
  "single [x] = Some x"
| "single xs = None"

subsection \<open>The store's statements\<close>

text \<open>
  The columns of \<open>invoices\<close>: invoice_number VARCHAR(50), due_date DATE NOT NULL, the money
  columns DECIMAL(12, 2), tax_rate DECIMAL(5, 2), payment_method VARCHAR(50). What the
  store's date input makes of a text is a parameter (\<open>date_in\<close>): the date it stores, or
  nothing when the text is no date.
\<close>

definition invoice_columns_ok :: "(string \<Rightarrow> string option) \<Rightarrow> invoice \<Rightarrow> bool" where
  "invoice_columns_ok date_in r \<longleftrightarrow>
     length (inv_number r) \<le> 50 \<and>
     (case inv_due_date r of None \<Rightarrow> False | Some d \<Rightarrow> date_in d \<noteq> None) \<and>
     decimal_ok 12 2 (inv_subtotal r) \<and> decimal_ok 5 2 (inv_tax_rate r) \<and>
     decimal_ok 12 2 (inv_tax_amount r) \<and> decimal_ok 12 2 (inv_discount_amount r) \<and>
     decimal_ok 12 2 (inv_total r) \<and> decimal_ok 12 2 (inv_paid_amount r) \<and>
     varchar_ok 50 (inv_payment_method r)"

text \<open>The row as the store keeps it.\<close>

definition stored_invoice :: "(string \<Rightarrow> string option) \<Rightarrow> invoice \<Rightarrow> invoice" where
  "stored_invoice date_in r =
     r\<lparr>inv_due_date := Option.bind (inv_due_date r) date_in,
       inv_subtotal := map_option (dec_round 2) (inv_subtotal r),
       inv_tax_rate := map_option (dec_round 2) (inv_tax_rate r),
       inv_tax_amount := map_option (dec_round 2) (inv_tax_amount r),
       inv_discount_amount := map_option (dec_round 2) (inv_discount_amount r),
       inv_total := map_option (dec_round 2) (inv_total r),
       inv_paid_amount := map_option (dec_round 2) (inv_paid_amount r)\<rparr>"

text \<open>
  An insert into \<open>invoices\<close> with \<open>.select().single()\<close>: refused when a column refuses its
  value or when the row breaks the primary key or UNIQUE(user_id, invoice_number);
  otherwise the stored row is added and handed back.
\<close>

definition insert_invoice ::
  "(string \<Rightarrow> string option) \<Rightarrow> db \<Rightarrow> invoice \<Rightarrow> (db \<times> invoice) option" where
  "insert_invoice date_in s row =
     (if \<not> invoice_columns_ok date_in row then None
      else if inv_id row \<in> set (map inv_id (invoices s)) then None
      else if (inv_user_id row, inv_number row)
                \<in> set (map (\<lambda>i. (inv_user_id i, inv_number i)) (invoices s)) then None
      else Some (s\<lparr>invoices := invoices s @ [stored_invoice date_in row]\<rparr>,
                 stored_invoice date_in row))"

text \<open>
  A batch of \<open>invoice_items\<close> is one statement: it is refused as a whole when a row breaks
  the primary key, the foreign key to \<open>invoices\<close>, NOT NULL on description, VARCHAR(200),
  or a numeric column (quantity DECIMAL(10, 2), unit_price and amount DECIMAL(12, 2)).
\<close>

definition item_row_ok :: "db \<Rightarrow> invoice_item \<Rightarrow> bool" where
  "item_row_ok s r =
     (it_id r \<notin> set (map it_id (invoice_items s)) \<and>
      it_invoice_id r \<in> set (map inv_id (invoices s)) \<and>
      (case it_description r of None \<Rightarrow> False | Some d \<Rightarrow> length d \<le> 200) \<and>
      fits 10 2 (it_quantity r) \<and> fits 12 2 (it_unit_price r) \<and> fits 12 2 (it_amount r))"

definition stored_item :: "invoice_item \<Rightarrow> invoice_item" where
  "stored_item r =
     r\<lparr>it_quantity := dec_round 2 (it_quantity r),
       it_unit_price := dec_round 2 (it_unit_price r),
       it_amount := dec_round 2 (it_amount r)\<rparr>"

definition insert_invoice_items :: "db \<Rightarrow> invoice_item list \<Rightarrow> db option" where
  "insert_invoice_items s rows =
     (if list_all (item_row_ok s) rows \<and> distinct (map it_id rows)
      then Some (s\<lparr>invoice_items := invoice_items s @ map stored_item rows\<rparr>)
      else None)"

text \<open>
  An insert into \<open>payments\<close>: the columns (amount DECIMAL(12, 2) NOT NULL, payment_method
  VARCHAR(50), stripe_payment_id VARCHAR(255)), the primary key, and the foreign keys to
  \<open>invoices\<close> and \<open>users\<close> (user_id is NOT NULL). The routes never look at its outcome, so a
  refused insert leaves the table as it was.
\<close>

definition payment_columns_ok :: "payment \<Rightarrow> bool" where
  "payment_columns_ok row \<longleftrightarrow>
     (case p_amount row of None \<Rightarrow> False | Some a \<Rightarrow> fits 12 2 a) \<and>
     varchar_ok 50 (p_payment_method row) \<and> varchar_ok 255 (p_stripe_payment_id row)"

definition stored_payment :: "payment \<Rightarrow> payment" where
  "stored_payment row = row\<lparr>p_amount := map_option (dec_round 2) (p_amount row)\<rparr>"

definition insert_payment :: "db \<Rightarrow> payment \<Rightarrow> db" where
  "insert_payment s row =
     (if \<not> payment_columns_ok row then s
      else if p_id row \<in> set (map p_id (payments s)) then s
      else if p_invoice_id row \<notin> set (map inv_id (invoices s)) then s
      else (case p_user_id row of
              None \<Rightarrow> s
            | Some u \<Rightarrow>
                if u \<in> set (map u_id (users s))
                then s\<lparr>payments := payments s @ [stored_payment row]\<rparr>
                else s))"

definition insert_audit_log :: "db \<Rightarrow> audit_log \<Rightarrow> db" where
  "insert_audit_log s row = s\<lparr>audit_logs := audit_logs s @ [row]\<rparr>"

text \<open>\<open>update(...).eq('id', id)\<close> on \<open>invoices\<close>, once the columns have taken the values.\<close>

definition update_invoice_by_id :: "db \<Rightarrow> uuid \<Rightarrow> (invoice \<Rightarrow> invoice) \<Rightarrow> db" where
  "update_invoice_by_id s iid f =
     s\<lparr>invoices := map (\<lambda>i. if inv_id i = iid then f i else i) (invoices s)\<rparr>"

text \<open>
  \<open>delete().eq('id', id)\<close> on \<open>invoices\<close>; the items and payments of the invoice go with
  it (ON DELETE CASCADE).
\<close>

definition delete_invoice_by_id :: "db \<Rightarrow> uuid \<Rightarrow> db" where
  "delete_invoice_by_id s iid =
     s\<lparr>invoices := filter (\<lambda>i. inv_id i \<noteq> iid) (invoices s),
       invoice_items := filter (\<lambda>r. it_invoice_id r \<noteq> iid) (invoice_items s),
       payments := filter (\<lambda>p. p_invoice_id p \<noteq> iid) (payments s)\<rparr>"

definition delete_items_of :: "db \<Rightarrow> uuid \<Rightarrow> db" where
  "delete_items_of s iid =
     s\<lparr>invoice_items := filter (\<lambda>r. it_invoice_id r \<noteq> iid) (invoice_items s)\<rparr>"

text \<open>The row of an invoice as a route fetches it: \<open>.eq('id', ..).eq('user_id', ..).single()\<close>.\<close>

definition fetch_invoice :: "db \<Rightarrow> uuid \<Rightarrow> uuid \<Rightarrow> invoice option" where
  "fetch_invoice s iid uid =
     single (filter (\<lambda>i. inv_id i = iid \<and> inv_user_id i = uid) (invoices s))"

section \<open>Middleware\<close>

text \<open>
  \<open>authenticate\<close> (middleware/auth.js), after the token has been verified: the user of the
  token is read from \<open>users\<close>; an unknown user is answered 401, a deactivated one 403.
\<close>

definition authenticate :: "db \<Rightarrow> uuid \<Rightarrow> failure + user" where
  "authenticate s uid =
     (case single (filter (\<lambda>u. u_id u = uid) (users s)) of
        None \<Rightarrow> Inl (Rejected 401 ''Invalid token. User not found.'')
      | Some u \<Rightarrow>
          if \<not> u_is_active u
          then Inl (Rejected 403 ''Account is deactivated. Please contact support.'')
          else Inr u)"

text \<open>\<open>requirePlan(...allowedPlans)\<close>: a user on another plan is answered 403.\<close>

definition plan_name :: "plan \<Rightarrow> string" where
  "plan_name p = (case p of Free \<Rightarrow> ''free'' | Pro \<Rightarrow> ''pro'' | Business \<Rightarrow> ''business'')"

text \<open>\<open>Array.prototype.join\<close>\<close>

fun join :: "string \<Rightarrow> string list \<Rightarrow> string" where
  "join sep [] = []"
| "join sep [x] = x"
| "join sep (x # y # ys) = x @ sep @ join sep (y # ys)"

definition requirePlan :: "plan list \<Rightarrow> user \<Rightarrow> failure option" where
  "requirePlan allowedPlans u =
     (if u_plan u \<notin> set allowedPlans
      then Some (Rejected 403
             (''This feature requires '' @ join '' or '' (map plan_name allowedPlans) @ '' plan.''))
      else None)"

section \<open>Invoice numbers\<close>

definition digit_char :: "nat \<Rightarrow> char" where
  "digit_char d =
     (if d = 0 then CHR ''0'' else if d = 1 then CHR ''1'' else if d = 2 then CHR ''2''
      else if d = 3 then CHR ''3'' else if d = 4 then CHR ''4'' else if d = 5 then CHR ''5''
      else if d = 6 then CHR ''6'' else if d = 7 then CHR ''7'' else if d = 8 then CHR ''8''
      else CHR ''9'')"

text \<open>\<open>String(n)\<close> for a natural number: its decimal digits.\<close>

fun String_of :: "nat \<Rightarrow> string" where
  "String_of n =
     (if n < 10 then [digit_char n] else String_of (n div 10) @ [digit_char (n mod 10)])"

declare String_of.simps [simp del]

text \<open>\<open>padStart\<close>: filled on the left up to the target length, never cut.\<close>

definition padStart :: "nat \<Rightarrow> char \<Rightarrow> string \<Rightarrow> string" where
  "padStart n c x = replicate (n - length x) c @ x"

text \<open>\<open>`INV-${new Date().getFullYear()}-${String(count + 1).padStart(4, '0')}`\<close>\<close>

definition invoiceNumber :: "timestamp \<Rightarrow> nat \<Rightarrow> string" where
  "invoiceNumber now count =
     ''INV-'' @ String_of (getFullYear now) @ ''-'' @ padStart 4 (CHR ''0'') (String_of (count + 1))"

section \<open>Requests\<close>

text \<open>
  What a request takes from outside the routes: the clock, the identifiers drawn by
  \<open>uuidv4()\<close> (the k-th draw of the request), the string cleaner \<open>xss(value.trim())\<close> of
  \<open>sanitizeString\<close>, whether PDF rendering and mail delivery go through, and the date
  input of the store.
\<close>

record env =
  now :: timestamp
  uuidv4 :: "nat \<Rightarrow> uuid"
  xss_trim :: "string \<Rightarrow> string"
  mail_ok :: bool
  pg_date :: "string \<Rightarrow> string option"

text \<open>\<open>sanitizeString\<close>: a value that is not a string is passed through.\<close>

definition sanitizeString :: "env \<Rightarrow> string option \<Rightarrow> string option" where
  "sanitizeString e v = (case v of None \<Rightarrow> None | Some x \<Rightarrow> Some (xss_trim e x))"

record item =
  description :: "string option"
  quantity :: rat
  price :: rat

text \<open>The body of a creation. \<open>items\<close> is an array here; absent \<open>tax_rate\<close> and
  \<open>discount_amount\<close> take the defaults of the destructuring.\<close>

record create_body =
  cb_client_id :: uuid
  cb_items :: "item list"
  cb_due_date :: "string option"
  cb_notes :: "string option"
  cb_terms :: "string option"
  cb_tax_rate :: "rat option"
  cb_discount_amount :: "rat option"

record update_body =
  ub_items :: "item list option"
  ub_due_date :: "string option"
  ub_notes :: "string option"
  ub_terms :: "string option"
  ub_status :: "string option"
  ub_tax_rate :: "rat option"
  ub_discount_amount :: "rat option"

text \<open>
  The body of mark-paid. A caller may send an amount; the route destructures
  \<open>payment_method\<close> and \<open>notes\<close> only.
\<close>

record markpaid_body =
  mb_payment_method :: "string field"
  mb_notes :: "string option"
  mb_amount :: "rat option"

text \<open>\<open>items.reduce((sum, item) => sum + (item.quantity * item.price), 0)\<close>\<close>

definition items_subtotal :: "item list \<Rightarrow> rat" where
  "items_subtotal items = foldl (\<lambda>sum item. sum + quantity item * price item) 0 items"

text \<open>\<open>items.map((item, index) => ({...}))\<close>, the index counted from \<open>k\<close>. The item at
  index \<open>k\<close> takes draw \<open>base + k\<close> of \<open>uuidv4()\<close>: \<open>base\<close> is 1 in the create route, where
  the invoice took draw 0, and 0 in the update route.\<close>

fun item_rows :: "env \<Rightarrow> nat \<Rightarrow> uuid \<Rightarrow> nat \<Rightarrow> item list \<Rightarrow> invoice_item list" where
  "item_rows e base iid k [] = []"
| "item_rows e base iid k (item # rest) =
     \<lparr>it_id = uuidv4 e (base + k), it_invoice_id = iid,
      it_description = sanitizeString e (description item),
      it_quantity = quantity item, it_unit_price = price item,
      it_amount = quantity item * price item, it_sort_order = k\<rparr>
     # item_rows e base iid (Suc k) rest"

text \<open>JavaScript's \<open>a || b\<close> where \<open>a\<close> is a number of the body or absent and \<open>b\<close> a column value
  or null: an absent \<open>a\<close> and 0 both give \<open>b\<close>.\<close>

definition js_or :: "rat option \<Rightarrow> rat option \<Rightarrow> rat option" where
  "js_or a b = (case a of None \<Rightarrow> b | Some v \<Rightarrow> if v = 0 then b else Some v)"

text \<open>A number or null in arithmetic: null counts as 0.\<close>

definition num :: "rat option \<Rightarrow> rat" where
  "num v = (case v of None \<Rightarrow> 0 | Some x \<Rightarrow> x)"

text \<open>The free plan's usage query:
  \<open>.eq('user_id', req.userId).gte('created_at', new Date(new Date().setDate(1)).toISOString())\<close>\<close>

definition month_count :: "db \<Rightarrow> uuid \<Rightarrow> timestamp \<Rightarrow> nat" where
  "month_count s uid t =
     length (filter (\<lambda>i. inv_user_id i = uid \<and> ts_le (setDate t 1) (inv_created_at i))
       (invoices s))"

section \<open>Invoice routes\<close>

subsection \<open>POST /api/invoices\<close>

text \<open>The row the route hands to the store: number from the tenant's current invoice
  count, totals from the items, status \<open>pending\<close>, identifier from the first draw of
  \<open>uuidv4()\<close>; \<open>created_at\<close> is the store's default, the time of the insert.\<close>

definition new_invoice_row :: "db \<Rightarrow> env \<Rightarrow> uuid \<Rightarrow> create_body \<Rightarrow> invoice" where
  "new_invoice_row s e uid b =
     (let tax_rate = (case cb_tax_rate b of None \<Rightarrow> 0 | Some t \<Rightarrow> t);
          discount_amount = (case cb_discount_amount b of None \<Rightarrow> 0 | Some d \<Rightarrow> d);
          count = length (filter (\<lambda>i. inv_user_id i = uid) (invoices s));
          invoiceNumber = invoiceNumber (now e) count;
          subtotal = items_subtotal (cb_items b);
          taxAmount = subtotal * (tax_rate / 100);
          total = subtotal + taxAmount - discount_amount;
          invoiceId = uuidv4 e 0
      in \<lparr>inv_id = invoiceId, inv_user_id = uid,
          inv_client_id = cb_client_id b, inv_number = invoiceNumber,
          inv_status = Pending, inv_due_date = cb_due_date b,
          inv_subtotal = Some subtotal, inv_tax_rate = Some tax_rate,
          inv_tax_amount = Some taxAmount, inv_discount_amount = Some discount_amount,
          inv_total = Some total,
          inv_notes = sanitizeString e (cb_notes b),
          inv_terms = sanitizeString e (cb_terms b),
          inv_paid_at = None, inv_paid_amount = None,
          inv_payment_method = None, inv_reminder_sent_at = None,
          inv_reminder_count = 0, inv_created_at = now e\<rparr>)"

text \<open>The route answers with the stored invoice, as the insert hands it back, and the
  items as it computed them.\<close>

definition createInvoice ::
  "db \<Rightarrow> env \<Rightarrow> uuid \<Rightarrow> create_body \<Rightarrow> db \<times> (failure + invoice \<times> invoice_item list)" where
  "createInvoice s e uid b =
     (case authenticate s uid of
        Inl err \<Rightarrow> (s, Inl err)
      | Inr u \<Rightarrow>
          if u_plan u = Free \<and> month_count s uid (now e) \<ge> 5
          then (s, Inl (APIError ''Free plan limited to 5 invoices per month. Please upgrade.''
                          403 ''PLAN_LIMIT''))
          else
            (case single (filter (\<lambda>c. c_id c = cb_client_id b \<and> c_user_id c = uid) (clients s)) of
               None \<Rightarrow> (s, Inl (APIError2 ''Client not found'' 404))
             | Some cl \<Rightarrow>
                 let row = new_invoice_row s e uid b
                 in (case insert_invoice (pg_date e) s row of
                       None \<Rightarrow> (s, Inl (APIError2 ''Failed to create invoice'' 500))
                     | Some (s1, invoice) \<Rightarrow>
                         let invoiceItems = item_rows e 1 (inv_id row) 0 (cb_items b)
                         in (case insert_invoice_items s1 invoiceItems of
                               None \<Rightarrow> (delete_invoice_by_id s1 (inv_id row),
                                         Inl (APIError2 ''Failed to create invoice items'' 500))
                             | Some s2 \<Rightarrow>
                                 (insert_audit_log s2
                                    \<lparr>a_user_id = Some uid, a_action = ''INVOICE_CREATED'',
                                     a_entity_type = ''invoice'', a_entity_id = Some (inv_id row),
                                     a_invoice_number = Some (inv_number row),
                                     a_total = inv_total row\<rparr>,
                                  Inr (invoice, invoiceItems))))))"

text \<open>The invoice in the response of a creation, if it succeeded.\<close>

definition response_invoice :: "db \<times> (failure + invoice \<times> invoice_item list) \<Rightarrow> invoice option" where
  "response_invoice r = (case snd r of Inl err \<Rightarrow> None | Inr (iv, rows) \<Rightarrow> Some iv)"

subsection \<open>PUT /api/invoices/:id\<close>

text \<open>The totals the route recomputes when the body carries items; \<open>existing\<close> is the row
  it fetched.\<close>

definition recomputed_totals :: "update_body \<Rightarrow> invoice \<Rightarrow> item list \<Rightarrow> rat \<times> rat \<times> rat" where
  "recomputed_totals b existing items =
     (let subtotal = items_subtotal items;
          taxAmount = subtotal * (num (js_or (ub_tax_rate b) (inv_tax_rate existing)) / 100);
          total = subtotal + taxAmount
                    - num (js_or (ub_discount_amount b) (inv_discount_amount existing))
      in (subtotal, taxAmount, total))"

text \<open>
  \<open>updateData = { due_date, notes, terms, status, tax_rate, discount_amount }\<close>, with
  \<open>subtotal\<close>, \<open>tax_amount\<close> and \<open>total\<close> when items came: a field the body does not carry is
  undefined and stays out of the statement. The statement is refused when a column
  refuses its value: a text that is no date, a status outside the CHECK constraint, a
  number that does not fit.
\<close>

definition updateData_ok :: "env \<Rightarrow> update_body \<Rightarrow> (rat \<times> rat \<times> rat) option \<Rightarrow> bool" where
  "updateData_ok e b totals \<longleftrightarrow>
     (case ub_due_date b of None \<Rightarrow> True | Some d \<Rightarrow> pg_date e d \<noteq> None) \<and>
     (case ub_status b of None \<Rightarrow> True | Some x \<Rightarrow> status_of_string x \<noteq> None) \<and>
     decimal_ok 5 2 (ub_tax_rate b) \<and> decimal_ok 12 2 (ub_discount_amount b) \<and>
     (case totals of
        None \<Rightarrow> True
      | Some (subtotal, taxAmount, total_v) \<Rightarrow>
          fits 12 2 subtotal \<and> fits 12 2 taxAmount \<and> fits 12 2 total_v)"

definition set_totals :: "(rat \<times> rat \<times> rat) option \<Rightarrow> invoice \<Rightarrow> invoice" where
  "set_totals totals i =
     (case totals of
        None \<Rightarrow> i
      | Some (subtotal, taxAmount, total_v) \<Rightarrow>
          i\<lparr>inv_subtotal := Some (dec_round 2 subtotal),
            inv_tax_amount := Some (dec_round 2 taxAmount),
            inv_total := Some (dec_round 2 total_v)\<rparr>)"

text \<open>What the statement makes of a row.\<close>

definition apply_updateData ::
  "env \<Rightarrow> update_body \<Rightarrow> (rat \<times> rat \<times> rat) option \<Rightarrow> invoice \<Rightarrow> invoice" where
  "apply_updateData e b totals i =
     set_totals totals
       (i\<lparr>inv_due_date := (case ub_due_date b of None \<Rightarrow> inv_due_date i | Some d \<Rightarrow> pg_date e d),
          inv_notes := (case ub_notes b of None \<Rightarrow> inv_notes i | Some x \<Rightarrow> Some x),
          inv_terms := (case ub_terms b of None \<Rightarrow> inv_terms i | Some x \<Rightarrow> Some x),
          inv_status := (case Option.bind (ub_status b) status_of_string of
                           None \<Rightarrow> inv_status i | Some st \<Rightarrow> st),
          inv_tax_rate := (case ub_tax_rate b of
                             None \<Rightarrow> inv_tax_rate i | Some t \<Rightarrow> Some (dec_round 2 t)),
          inv_discount_amount :=
            (case ub_discount_amount b of
               None \<Rightarrow> inv_discount_amount i | Some d \<Rightarrow> Some (dec_round 2 d))\<rparr>)"

text \<open>The old items are deleted and the new ones inserted; neither outcome is looked at.\<close>

definition replace_items :: "db \<Rightarrow> env \<Rightarrow> uuid \<Rightarrow> item list \<Rightarrow> db" where
  "replace_items s e iid items =
     (let s1 = delete_items_of s iid
      in (case insert_invoice_items s1 (item_rows e 0 iid 0 items) of
            None \<Rightarrow> s1
          | Some s2 \<Rightarrow> s2))"

text \<open>The items are replaced before the invoice is updated, so a refused update leaves
  the new items in place.\<close>

definition updateInvoice ::
  "db \<Rightarrow> env \<Rightarrow> uuid \<Rightarrow> uuid \<Rightarrow> update_body \<Rightarrow> db \<times> (failure + invoice)" where
  "updateInvoice s e uid iid b =
     (case authenticate s uid of
        Inl err \<Rightarrow> (s, Inl err)
      | Inr u \<Rightarrow>
          (case fetch_invoice s iid uid of
             None \<Rightarrow> (s, Inl (APIError2 ''Invoice not found'' 404))
           | Some existing \<Rightarrow>
               if inv_status existing = Paid \<and> ub_status b \<noteq> Some ''paid''
               then (s, Inl (APIError2 ''Cannot modify a paid invoice'' 400))
               else
                 let s1 = (case ub_items b of
                             None \<Rightarrow> s
                           | Some items \<Rightarrow> replace_items s e iid items);
                     totals = map_option (recomputed_totals b existing) (ub_items b)
                 in if \<not> updateData_ok e b totals
                    then (s1, Inl (APIError2 ''Failed to update invoice'' 500))
                    else
                      (let s2 = update_invoice_by_id s1 iid (apply_updateData e b totals)
                       in (case single (filter (\<lambda>i. inv_id i = iid) (invoices s2)) of
                             None \<Rightarrow> (s2, Inl (APIError2 ''Failed to update invoice'' 500))
                           | Some r \<Rightarrow> (s2, Inr r)))))"

subsection \<open>POST /api/invoices/:id/send\<close>

definition sendInvoice :: "db \<Rightarrow> env \<Rightarrow> uuid \<Rightarrow> uuid \<Rightarrow> db \<times> (failure + unit)" where
  "sendInvoice s e uid iid =
     (case authenticate s uid of
        Inl err \<Rightarrow> (s, Inl err)
      | Inr u \<Rightarrow>
          (case requirePlan [Pro, Business] u of
             Some err \<Rightarrow> (s, Inl err)
           | None \<Rightarrow>
               (case fetch_invoice s iid uid of
                  None \<Rightarrow> (s, Inl (APIError2 ''Invoice not found'' 404))
                | Some invoice \<Rightarrow>
                    if \<not> mail_ok e then (s, Inl CollaboratorError)
                    else if inv_status invoice = Draft
                    then (update_invoice_by_id s iid (\<lambda>i. i\<lparr>inv_status := Pending\<rparr>), Inr ())
                    else (s, Inr ()))))"

subsection \<open>POST /api/invoices/:id/remind\<close>

definition remindInvoice :: "db \<Rightarrow> env \<Rightarrow> uuid \<Rightarrow> uuid \<Rightarrow> db \<times> (failure + unit)" where
  "remindInvoice s e uid iid =
     (case authenticate s uid of
        Inl err \<Rightarrow> (s, Inl err)
      | Inr u \<Rightarrow>
          (case requirePlan [Pro, Business] u of
             Some err \<Rightarrow> (s, Inl err)
           | None \<Rightarrow>
               (case fetch_invoice s iid uid of
                  None \<Rightarrow> (s, Inl (APIError2 ''Invoice not found'' 404))
                | Some invoice \<Rightarrow>
                    if inv_status invoice = Paid
                    then (s, Inl (APIError2 ''Invoice is already paid'' 400))
                    else (update_invoice_by_id s iid
                            (\<lambda>i. i\<lparr>inv_reminder_sent_at := Some (now e),
                                   inv_reminder_count := inv_reminder_count invoice + 1\<rparr>),
                          Inr ()))))"

subsection \<open>POST /api/invoices/:id/mark-paid\<close>

text \<open>
  \<open>payment_method = 'manual'\<close> is the default of the destructuring: it applies to a field
  that is left out, not to null. The update writes \<open>invoice.total\<close> to paid_amount
  (DECIMAL(12, 2)) and the method to payment_method (VARCHAR(50)); when a column refuses,
  the route throws and nothing is written.
\<close>

definition markPaid :: "db \<Rightarrow> env \<Rightarrow> uuid \<Rightarrow> uuid \<Rightarrow> markpaid_body \<Rightarrow> db \<times> (failure + unit)" where
  "markPaid s e uid iid b =
     (let payment_method = (case mb_payment_method b of
                              Undefined \<Rightarrow> Some ''manual'' | Null \<Rightarrow> None | Given m \<Rightarrow> Some m)
      in (case authenticate s uid of
            Inl err \<Rightarrow> (s, Inl err)
          | Inr u \<Rightarrow>
              (case fetch_invoice s iid uid of
                 None \<Rightarrow> (s, Inl (APIError2 ''Invoice not found'' 404))
               | Some invoice \<Rightarrow>
                   if \<not> (decimal_ok 12 2 (inv_total invoice) \<and> varchar_ok 50 payment_method)
                   then (s, Inl (APIError2 ''Failed to update invoice'' 500))
                   else
                     let s1 = update_invoice_by_id s iid
                                (\<lambda>i. i\<lparr>inv_status := Paid, inv_paid_at := Some (now e),
                                       inv_paid_amount :=
                                         map_option (dec_round 2) (inv_total invoice),
                                       inv_payment_method := payment_method\<rparr>)
                     in (insert_payment s1
                           \<lparr>p_id = uuidv4 e 0, p_invoice_id = iid, p_user_id = Some uid,
                            p_amount = inv_total invoice,
                            p_payment_method = payment_method,
                            p_stripe_payment_id = None, p_status = Completed,
                            p_notes = mb_notes b\<rparr>,
                         Inr ()))))"

subsection \<open>DELETE /api/invoices/:id\<close>

definition deleteInvoice :: "db \<Rightarrow> uuid \<Rightarrow> uuid \<Rightarrow> db \<times> (failure + unit)" where
  "deleteInvoice s uid iid =
     (case authenticate s uid of
        Inl err \<Rightarrow> (s, Inl err)
      | Inr u \<Rightarrow>
          (case fetch_invoice s iid uid of
             None \<Rightarrow> (s, Inl (APIError2 ''Invoice not found'' 404))
           | Some invoice \<Rightarrow>
               if inv_status invoice = Paid
               then (s, Inl (APIError2 ''Cannot delete a paid invoice'' 400))
               else (delete_invoice_by_id s iid, Inr ())))"

section \<open>Webhook handlers\<close>

record stripe_subscription =
  ss_id :: string
  ss_customer :: string

record payment_intent =
  pi_id :: string
  pi_amount :: int
  pi_invoice_id :: "string option"
  pi_user_id :: "string option"

text \<open>\<open>handleSubscriptionDeleted\<close>: two updates, by the processor's subscription id and by
  the processor's customer id.\<close>

definition handleSubscriptionDeleted :: "db \<Rightarrow> env \<Rightarrow> stripe_subscription \<Rightarrow> db" where
  "handleSubscriptionDeleted s e sub =
     s\<lparr>subscriptions :=
         map (\<lambda>r. if sub_stripe_subscription_id r = Some (ss_id sub)
                  then r\<lparr>sub_status := SubCancelled, sub_cancelled_at := Some (now e)\<rparr>
                  else r) (subscriptions s),
       users :=
         map (\<lambda>u. if u_stripe_customer_id u = Some (ss_customer sub)
                  then u\<lparr>u_plan := Free, u_stripe_subscription_id := None\<rparr>
                  else u) (users s)\<rparr>"

text \<open>\<open>handlePaymentIntentSucceeded\<close>: \<open>!invoiceId\<close> holds for an absent and for an empty
  invoice id; the amount arrives in cents. The handler looks at the outcome of neither
  statement: an update that paid_amount refuses leaves the invoice as it was.\<close>

definition handlePaymentIntentSucceeded :: "db \<Rightarrow> env \<Rightarrow> payment_intent \<Rightarrow> db" where
  "handlePaymentIntentSucceeded s e paymentIntent =
     (case pi_invoice_id paymentIntent of
        None \<Rightarrow> s
      | Some invoiceId \<Rightarrow>
          if invoiceId = [] then s
          else
            let amount = of_int (pi_amount paymentIntent) / 100;
                s1 = (if fits 12 2 amount
                      then update_invoice_by_id s invoiceId
                             (\<lambda>i. i\<lparr>inv_status := Paid, inv_paid_at := Some (now e),
                                    inv_paid_amount := Some (dec_round 2 amount),
                                    inv_payment_method := Some ''stripe''\<rparr>)
                      else s)
            in insert_payment s1
                 \<lparr>p_id = uuidv4 e 0, p_invoice_id = invoiceId,
                  p_user_id = pi_user_id paymentIntent,
                  p_amount = Some amount,
                  p_payment_method = Some ''stripe'',
                  p_stripe_payment_id = Some (pi_id paymentIntent),
                  p_status = Completed, p_notes = None\<rparr>)"

section \<open>Sequences of operations\<close>

datatype op =
    OpCreate uuid create_body
  | OpUpdate uuid uuid update_body
  | OpSend uuid uuid
  | OpRemind uuid uuid
  | OpMarkPaid uuid uuid markpaid_body
  | OpDelete uuid uuid
  | OpPaymentSucceeded payment_intent
  | OpSubscriptionDeleted stripe_subscription

fun step :: "db \<Rightarrow> env \<times> op \<Rightarrow> db" where
  "step s (e, OpCreate uid b) = fst (createInvoice s e uid b)"
| "step s (e, OpUpdate uid iid b) = fst (updateInvoice s e uid iid b)"
| "step s (e, OpSend uid iid) = fst (sendInvoice s e uid iid)"
| "step s (e, OpRemind uid iid) = fst (remindInvoice s e uid iid)"
| "step s (e, OpMarkPaid uid iid b) = fst (markPaid s e uid iid b)"
| "step s (e, OpDelete uid iid) = fst (deleteInvoice s uid iid)"
| "step s (e, OpPaymentSucceeded paymentIntent) = handlePaymentIntentSucceeded s e paymentIntent"
| "step s (e, OpSubscriptionDeleted sub) = handleSubscriptionDeleted s e sub"

definition run :: "db \<Rightarrow> (env \<times> op) list \<Rightarrow> db" where
  "run s ops = foldl step s ops"

section \<open>Example data\<close>

text \<open>A tenant, one client of the tenant, and requests used to run the routes on
  concrete inputs.\<close>

definition ex_user :: "plan \<Rightarrow> user" where
  "ex_user p = \<lparr>u_id = ''u1'', u_email = ''owner@x.com'', u_name = ''Owner'', u_plan = p,
     u_plan_expires_at = None, u_stripe_customer_id = Some ''cus_1'',
     u_stripe_subscription_id = Some ''sub_1'', u_is_active = True\<rparr>"

definition ex_client :: client where
  "ex_client = \<lparr>c_id = ''c1'', c_user_id = ''u1'', c_name = ''C'', c_email = ''a@x.com''\<rparr>"

definition ex_db :: "plan \<Rightarrow> db" where
  "ex_db p = empty_db\<lparr>users := [ex_user p], clients := [ex_client]\<rparr>"

definition ex_time :: "nat \<Rightarrow> nat \<Rightarrow> timestamp" where
  "ex_time d ms = \<lparr>t_year = 2026, t_month = 11, t_day = d, t_ms = ms\<rparr>"

definition ex_env :: "timestamp \<Rightarrow> string \<Rightarrow> env" where
  "ex_env t tag = \<lparr>now = t,
     uuidv4 = (\<lambda>k. if k = 0 then tag @ ''-0'' else if k = 1 then tag @ ''-1'' else tag @ ''-2''),
     xss_trim = (\<lambda>x. x), mail_ok = True,
     pg_date = (\<lambda>d. if length d = 10 then Some d else None)\<rparr>"

definition ex_items :: "item list" where
  "ex_items = [\<lparr>description = Some ''Design'', quantity = 2, price = 50\<rparr>,
               \<lparr>description = Some ''Hosting'', quantity = 1, price = 25\<rparr>]"

definition ex_body :: create_body where
  "ex_body = \<lparr>cb_client_id = ''c1'', cb_items = ex_items,
     cb_due_date = Some ''2026-12-01'', cb_notes = None, cb_terms = None,
     cb_tax_rate = Some 10, cb_discount_amount = Some 5\<rparr>"

definition ex_invoice :: "string \<Rightarrow> string \<Rightarrow> status \<Rightarrow> timestamp \<Rightarrow> invoice" where
  "ex_invoice iid number st t =
     \<lparr>inv_id = iid, inv_user_id = ''u1'', inv_client_id = ''c1'', inv_number = number,
      inv_status = st, inv_due_date = Some ''2026-12-01'', inv_subtotal = Some 125,
      inv_tax_rate = Some 10, inv_tax_amount = Some (25 / 2), inv_discount_amount = Some 5,
      inv_total = Some (265 / 2), inv_notes = None, inv_terms = None, inv_paid_at = None,
      inv_paid_amount = None, inv_payment_method = None, inv_reminder_sent_at = None,
      inv_reminder_count = 0, inv_created_at = t\<rparr>"

text \<open>The store of the tenant with one invoice in a given status.\<close>

definition ex_db1 :: "plan \<Rightarrow> status \<Rightarrow> db" where
  "ex_db1 p st = (ex_db p)\<lparr>invoices := [ex_invoice ''i1'' ''INV-2026-0001'' st (ex_time 1 1000)]\<rparr>"

definition ex_markpaid_body :: markpaid_body where
  "ex_markpaid_body = \<lparr>mb_payment_method = Undefined, mb_notes = None, mb_amount = Some 1\<rparr>"



section \<open>Predicates of the specification\<close>



text \<open>The invoice in the response of an update, if it succeeded.\<close>

definition updated_invoice :: "db \<times> (failure + invoice) \<Rightarrow> invoice option" where
  "updated_invoice r = (case snd r of Inl err \<Rightarrow> None | Inr iv \<Rightarrow> Some iv)"

definition ex_update_body :: update_body where
  "ex_update_body = \<lparr>ub_items = Some ex_items, ub_due_date = None, ub_notes = None,
     ub_terms = None, ub_status = None, ub_tax_rate = None, ub_discount_amount = Some 5\<rparr>"


text \<open>An update that replaces the items by 3 units at 40.00 and sets the discount to 20.00.\<close>

definition ex_update_body_items :: update_body where
  "ex_update_body_items = \<lparr>ub_items = Some [\<lparr>description = Some ''Support'', quantity = 3, price = 40\<rparr>],
     ub_due_date = None, ub_notes = None, ub_terms = None, ub_status = None,
     ub_tax_rate = None, ub_discount_amount = Some 20\<rparr>"

text \<open>A request whose only item carries no description.\<close>

definition ex_body_no_description :: create_body where
  "ex_body_no_description =
     ex_body\<lparr>cb_items := [\<lparr>description = None, quantity = 1, price = 10\<rparr>]\<rparr>"

definition ex_subscription :: subscription where
  "ex_subscription = \<lparr>sub_id = ''s1'', sub_user_id = ''u1'',
     sub_stripe_subscription_id = Some ''sub_1'', sub_stripe_customer_id = Some ''cus_1'',
     sub_plan = ''pro'', sub_status = Active, sub_cancelled_at = None\<rparr>"

definition ex_db_subscribed :: db where
  "ex_db_subscribed = (ex_db Pro)\<lparr>subscriptions := [ex_subscription]\<rparr>"

definition ex_stripe_subscription :: stripe_subscription where
  "ex_stripe_subscription = \<lparr>ss_id = ''sub_1'', ss_customer = ''cus_1''\<rparr>"

text \<open>A payment-succeeded event tagged with invoice \<open>i1\<close>, for 100.00.\<close>

definition ex_payment_intent :: payment_intent where
  "ex_payment_intent = \<lparr>pi_id = ''pi_1'', pi_amount = 10000,
     pi_invoice_id = Some ''i1'', pi_user_id = Some ''u1''\<rparr>"

section \<open>Invariants of the invoice table\<close>

text \<open>The keys the schema declares on \<open>invoices\<close>: the primary key and
  UNIQUE(user_id, invoice_number).\<close>

definition ids_unique :: "db \<Rightarrow> bool" where
  "ids_unique s \<longleftrightarrow> distinct (map inv_id (invoices s))"

definition numbers_unique :: "db \<Rightarrow> bool" where
  "numbers_unique s \<longleftrightarrow> distinct (map (\<lambda>i. (inv_user_id i, inv_number i)) (invoices s))"

text \<open>The identifiers of the invoices that are paid.\<close>

definition paid_ids :: "db \<Rightarrow> uuid list" where
  "paid_ids s = map inv_id (filter (\<lambda>i. inv_status i = Paid) (invoices s))"

text \<open>
  How one operation can change the invoice table: not at all; by rewriting the rows of one
  identifier, keeping identifier, owner and number, and keeping a paid row paid; by
  removing the rows of one identifier, none of them paid; or by adding one row with a new
  identifier and a new (owner, number) pair.
\<close>

definition inv_trans :: "invoice list \<Rightarrow> invoice list \<Rightarrow> bool" where
  "inv_trans xs ys \<longleftrightarrow>
     ys = xs \<or>
     (\<exists>iid g. ys = map (\<lambda>i. if inv_id i = iid then g i else i) xs \<and>
        (\<forall>i \<in> set xs. inv_id i = iid \<longrightarrow>
           inv_id (g i) = iid \<and> inv_user_id (g i) = inv_user_id i \<and>
           inv_number (g i) = inv_number i \<and> (inv_status i = Paid \<longrightarrow> inv_status (g i) = Paid))) \<or>
     (\<exists>iid. ys = filter (\<lambda>i. inv_id i \<noteq> iid) xs \<and>
        (\<forall>i \<in> set xs. inv_id i = iid \<longrightarrow> inv_status i \<noteq> Paid)) \<or>
     (\<exists>row. ys = xs @ [row] \<and> inv_id row \<notin> set (map inv_id xs) \<and>
        (inv_user_id row, inv_number row) \<notin> set (map (\<lambda>i. (inv_user_id i, inv_number i)) xs))"

text \<open>The count the specification names for the free plan: the tenant's invoices created
  within the calendar month of the given instant.\<close>

definition calendar_month_count :: "db \<Rightarrow> uuid \<Rightarrow> timestamp \<Rightarrow> nat" where
  "calendar_month_count s uid t =
     length (filter (\<lambda>i. inv_user_id i = uid \<and> t_year (inv_created_at i) = t_year t \<and>
                        t_month (inv_created_at i) = t_month t) (invoices s))"

text \<open>A free-plan tenant with five invoices, all created on the first of the month
  shortly after midnight.\<close>

definition ex_db5 :: db where
  "ex_db5 = (ex_db Free)\<lparr>invoices :=
     [ex_invoice ''i1'' ''INV-2026-0001'' Pending (ex_time 1 1000),
      ex_invoice ''i2'' ''INV-2026-0002'' Pending (ex_time 1 2000),
      ex_invoice ''i3'' ''INV-2026-0003'' Pending (ex_time 1 3000),
      ex_invoice ''i4'' ''INV-2026-0004'' Pending (ex_time 1 4000),
      ex_invoice ''i5'' ''INV-2026-0005'' Pending (ex_time 1 5000)]\<rparr>"

text \<open>Attempts on a paid invoice: an update to \<open>cancelled\<close>, a delete, a second mark-paid,
  a reminder and a payment-succeeded event.\<close>

definition ex_ops :: "(env \<times> op) list" where
  "ex_ops =
     [(ex_env (ex_time 3 0) ''a'', OpUpdate ''u1'' ''i1'' (ex_update_body\<lparr>ub_status := Some ''cancelled''\<rparr>)),
      (ex_env (ex_time 3 1) ''b'', OpDelete ''u1'' ''i1''),
      (ex_env (ex_time 3 2) ''c'', OpMarkPaid ''u1'' ''i1'' ex_markpaid_body),
      (ex_env (ex_time 3 3) ''d'', OpRemind ''u1'' ''i1''),
      (ex_env (ex_time 3 4) ''e'', OpPaymentSucceeded ex_payment_intent)]"

subsection \<open>Foreign keys and further stores\<close>

text \<open>The foreign keys the schema declares from \<open>invoice_items\<close> and \<open>payments\<close> to
  \<open>invoices\<close>.\<close>

definition references_ok :: "db \<Rightarrow> bool" where
  "references_ok s \<longleftrightarrow>
     list_all (\<lambda>r. it_invoice_id r \<in> set (map inv_id (invoices s))) (invoice_items s) \<and>
     list_all (\<lambda>p. p_invoice_id p \<in> set (map inv_id (invoices s))) (payments s)"

text \<open>The store of the tenant with one paid invoice, its two item rows and its payment
  record.\<close>

definition ex_item_rows :: "invoice_item list" where
  "ex_item_rows =
     [\<lparr>it_id = ''r1'', it_invoice_id = ''i1'', it_description = Some ''Design'',
       it_quantity = 2, it_unit_price = 50, it_amount = 100, it_sort_order = 0\<rparr>,
      \<lparr>it_id = ''r2'', it_invoice_id = ''i1'', it_description = Some ''Hosting'',
       it_quantity = 1, it_unit_price = 25, it_amount = 25, it_sort_order = 1\<rparr>]"

definition ex_payment :: payment where
  "ex_payment = \<lparr>p_id = ''p1'', p_invoice_id = ''i1'', p_user_id = Some ''u1'',
     p_amount = Some (265 / 2), p_payment_method = Some ''manual'',
     p_stripe_payment_id = None, p_status = Completed, p_notes = None\<rparr>"

definition ex_db_settled :: "plan \<Rightarrow> db" where
  "ex_db_settled p = (ex_db1 p Paid)\<lparr>invoice_items := ex_item_rows, payments := [ex_payment]\<rparr>"

text \<open>The store of the tenant with two pending invoices, and a sequence on it: a creation,
  the deletion of the first invoice, a second creation, a mark-paid of the second invoice
  and an update of the created one.\<close>

definition ex_db2 :: "plan \<Rightarrow> db" where
  "ex_db2 p = (ex_db p)\<lparr>invoices :=
     [ex_invoice ''i1'' ''INV-2026-0001'' Pending (ex_time 1 1000),
      ex_invoice ''i2'' ''INV-2026-0002'' Pending (ex_time 1 2000)]\<rparr>"

definition ex_ops2 :: "(env \<times> op) list" where
  "ex_ops2 =
     [(ex_env (ex_time 3 0) ''a'', OpCreate ''u1'' ex_body),
      (ex_env (ex_time 3 1) ''b'', OpDelete ''u1'' ''i1''),
      (ex_env (ex_time 3 2) ''c'', OpCreate ''u1'' ex_body),
      (ex_env (ex_time 3 3) ''d'', OpMarkPaid ''u1'' ''i2'' ex_markpaid_body),
      (ex_env (ex_time 3 4) ''e'', OpUpdate ''u1'' ''a-0'' ex_update_body_items)]"


section \<open>Properties\<close>

subsection \<open>The text of an invoice number\<close>

lemma digit_char_digit: "digit_char d \<in> set ''0123456789''"
  by (simp add: digit_char_def)

lemma String_of_digits: "set (String_of n) \<subseteq> set ''0123456789''"
proof (induction n rule: String_of.induct)
  case (1 n)
  show ?case
  proof (cases "n < 10")
    case True
    then have "String_of n = [digit_char n]" by (simp add: String_of.simps)
    then show ?thesis using digit_char_digit [of n] by simp
  next
    case False
    then have "String_of n = String_of (n div 10) @ [digit_char (n mod 10)]"
      by (simp add: String_of.simps)
    then show ?thesis using 1 [OF False] digit_char_digit [of "n mod 10"] by simp
  qed
qed

lemma length_String_of: "n < 10 ^ k \<Longrightarrow> 0 < k \<Longrightarrow> length (String_of n) \<le> k"
proof (induction k arbitrary: n)
  case 0
  then show ?case by simp
next
  case (Suc k)
  show ?case
  proof (cases "n < 10")
    case True
    then show ?thesis by (simp add: String_of.simps)
  next
    case False
    with Suc.prems have k: "0 < k" by (cases k) simp_all
    from Suc.prems have "n div 10 < 10 ^ k" by (simp add: less_mult_imp_div_less mult.commute)
    from Suc.IH [OF this k] False show ?thesis by (simp add: String_of.simps)
  qed
qed

lemma length_padStart: "length (padStart n c x) = max n (length x)"
  by (simp add: padStart_def)

lemma set_padStart: "set (padStart n c x) \<subseteq> insert c (set x)"
  by (auto simp: padStart_def)

lemma padStart_step:
  "padStart n c x = (if length x < n then padStart n c (c # x) else x)"
proof (cases "length x < n")
  case True
  then have "n - length x = Suc (n - Suc (length x))" by simp
  then show ?thesis using True by (simp add: padStart_def replicate_app_Cons_same)
next
  case False
  then show ?thesis by (simp add: padStart_def)
qed

subsection \<open>Rounding\<close>

lemma floor_rat_numeral: "\<lfloor>(numeral a :: rat) / numeral b\<rfloor> = numeral a div numeral b"
  using floor_divide_of_int_eq [of "numeral a" "numeral b", where ?'a = rat] by simp

lemma floor_rat_one: "\<lfloor>(1 :: rat) / numeral b\<rfloor> = 1 div numeral b"
  using floor_divide_of_int_eq [of 1 "numeral b", where ?'a = rat] by simp





subsection \<open>Creation\<close>



lemma insert_invoice_SomeD:
  assumes "insert_invoice date_in s row = Some (s1, r)"
  shows "r = stored_invoice date_in row" "invoices s1 = invoices s @ [r]"
    "s1 = s\<lparr>invoices := invoices s @ [r]\<rparr>"
    "inv_id row \<notin> set (map inv_id (invoices s))"
    "(inv_user_id row, inv_number row)
       \<notin> set (map (\<lambda>i. (inv_user_id i, inv_number i)) (invoices s))"
    "invoice_columns_ok date_in row"
  using assms by (auto simp: insert_invoice_def split: if_splits)

lemma stored_invoice_keys:
  "inv_id (stored_invoice date_in r) = inv_id r"
  "inv_user_id (stored_invoice date_in r) = inv_user_id r"
  "inv_number (stored_invoice date_in r) = inv_number r"
  "inv_status (stored_invoice date_in r) = inv_status r"
  by (simp_all add: stored_invoice_def)

text \<open>A successful creation answers with the stored form of the row the route built; that
  row is in the store.\<close>

lemma createInvoice_InrD:
  assumes "createInvoice s e uid b = (s', Inr (iv, rows))"
  shows "iv = stored_invoice (pg_date e) (new_invoice_row s e uid b)"
    "iv \<in> set (invoices s')"
    "invoice_columns_ok (pg_date e) (new_invoice_row s e uid b)"
proof -
  from assms obtain s1 s2 where
    ins: "insert_invoice (pg_date e) s (new_invoice_row s e uid b) = Some (s1, iv)"
    and items: "insert_invoice_items s1 (item_rows e 1 (inv_id (new_invoice_row s e uid b)) 0 (cb_items b))
                  = Some s2"
    and s': "invoices s' = invoices s2"
    by (auto simp: createInvoice_def Let_def insert_audit_log_def
          split: sum.splits if_splits option.splits prod.splits)
  from items have "invoices s2 = invoices s1"
    by (auto simp: insert_invoice_items_def split: if_splits)
  with s' insert_invoice_SomeD(2) [OF ins] show "iv \<in> set (invoices s')" by simp
  from insert_invoice_SomeD(1) [OF ins]
  show "iv = stored_invoice (pg_date e) (new_invoice_row s e uid b)" .
  from insert_invoice_SomeD(6) [OF ins]
  show "invoice_columns_ok (pg_date e) (new_invoice_row s e uid b)" .
qed




subsection \<open>Fetching and authenticating\<close>

lemma single_Some_iff: "single xs = Some x \<longleftrightarrow> xs = [x]"
  by (cases xs rule: single.cases) auto

lemma fetch_invoice_SomeD:
  assumes "fetch_invoice s iid uid = Some x"
  shows "x \<in> set (invoices s)" "inv_id x = iid" "inv_user_id x = uid"
proof -
  from assms have eq: "filter (\<lambda>i. inv_id i = iid \<and> inv_user_id i = uid) (invoices s) = [x]"
    by (simp add: fetch_invoice_def single_Some_iff)
  then have "x \<in> set (filter (\<lambda>i. inv_id i = iid \<and> inv_user_id i = uid) (invoices s))"
    by simp
  then show "x \<in> set (invoices s)" "inv_id x = iid" "inv_user_id x = uid" by auto
qed









subsection \<open>Payments\<close>



lemma fits_cents: "is_cents t \<Longrightarrow> fits 12 2 t \<longleftrightarrow> \<bar>t\<bar> < 10 ^ 10"
  by (simp add: fits_def is_cents_def)










subsection \<open>Update\<close>


lemma invoices_replace_items: "invoices (replace_items s e iid items) = invoices s"
  by (simp add: replace_items_def delete_items_of_def insert_invoice_items_def Let_def
      split: option.splits)

lemma apply_updateData_keys:
  "inv_id (apply_updateData e b totals i) = inv_id i"
  "inv_user_id (apply_updateData e b totals i) = inv_user_id i"
  "inv_number (apply_updateData e b totals i) = inv_number i"
  "inv_status (apply_updateData e b totals i)
     = (case Option.bind (ub_status b) status_of_string of
          None \<Rightarrow> inv_status i | Some st \<Rightarrow> st)"
  by (simp_all add: apply_updateData_def set_totals_def split: option.splits prod.splits)


subsection \<open>The bound on the discount\<close>




subsection \<open>Rollback of a creation\<close>

text \<open>
  C9. When the insert of the line items is refused after the invoice row went in, the
  route answers with the error \<open>Failed to create invoice items\<close> (500) and deletes the
  invoice row again. The invoices, users, clients, subscriptions and audit entries are those
  of before; of the items and payments only rows carrying the new identifier could be gone,
  and the foreign keys leave none: the store is the one of before the request. No invoice
  and no item carries the new identifier.
\<close>

theorem createInvoice_rollback:
  assumes a: "authenticate s uid = Inr u"
    and lim: "\<not> (u_plan u = Free \<and> 5 \<le> month_count s uid (now e))"
    and cl: "single (filter (\<lambda>c. c_id c = cb_client_id b \<and> c_user_id c = uid) (clients s)) = Some cl"
    and ins: "insert_invoice (pg_date e) s (new_invoice_row s e uid b) = Some (s1, r)"
    and items: "insert_invoice_items s1 (item_rows e 1 (uuidv4 e 0) 0 (cb_items b)) = None"
  shows "createInvoice s e uid b
           = (s\<lparr>invoice_items := filter (\<lambda>r. it_invoice_id r \<noteq> uuidv4 e 0) (invoice_items s),
                payments := filter (\<lambda>p. p_invoice_id p \<noteq> uuidv4 e 0) (payments s)\<rparr>,
              Inl (APIError ''Failed to create invoice items'' 500 ''INTERNAL_ERROR'')) \<and>
     (references_ok s \<longrightarrow>
        createInvoice s e uid b
          = (s, Inl (APIError ''Failed to create invoice items'' 500 ''INTERNAL_ERROR''))) \<and>
     invoices (fst (createInvoice s e uid b)) = invoices s \<and>
     users (fst (createInvoice s e uid b)) = users s \<and>
     clients (fst (createInvoice s e uid b)) = clients s \<and>
     subscriptions (fst (createInvoice s e uid b)) = subscriptions s \<and>
     audit_logs (fst (createInvoice s e uid b)) = audit_logs s \<and>
     uuidv4 e 0 \<notin> set (map inv_id (invoices (fst (createInvoice s e uid b)))) \<and>
     uuidv4 e 0 \<notin> set (map it_invoice_id (invoice_items (fst (createInvoice s e uid b))))"
proof -
  let ?id = "uuidv4 e 0"
  let ?s' = "s\<lparr>invoice_items := filter (\<lambda>r. it_invoice_id r \<noteq> ?id) (invoice_items s),
                payments := filter (\<lambda>p. p_invoice_id p \<noteq> ?id) (payments s)\<rparr>"
  let ?err = "Inl (APIError ''Failed to create invoice items'' 500 ''INTERNAL_ERROR'')"
  have rid: "inv_id (new_invoice_row s e uid b) = ?id"
    by (simp add: new_invoice_row_def Let_def)
  from ins have s1: "s1 = s\<lparr>invoices := invoices s
                               @ [stored_invoice (pg_date e) (new_invoice_row s e uid b)]\<rparr>"
    and fresh: "?id \<notin> set (map inv_id (invoices s))"
    by (auto simp: insert_invoice_def rid split: if_splits)
  have r: "createInvoice s e uid b = (delete_invoice_by_id s1 ?id, ?err)"
    using a lim cl ins items by (simp add: createInvoice_def Let_def rid APIError2_def)
  from fresh have "filter (\<lambda>i. inv_id i \<noteq> ?id) (invoices s) = invoices s"
    by (auto simp: filter_id_conv intro: rev_image_eqI)
  then have d: "delete_invoice_by_id s1 ?id = ?s'"
    by (simp add: delete_invoice_by_id_def s1 stored_invoice_keys rid)
  have A: "createInvoice s e uid b = (?s', ?err)"
    using r d by simp
  have B: "createInvoice s e uid b = (s, ?err)" if fk: "references_ok s"
  proof -
    from fk have "\<And>r. r \<in> set (invoice_items s)
                     \<Longrightarrow> it_invoice_id r \<in> set (map inv_id (invoices s))"
      and "\<And>p. p \<in> set (payments s) \<Longrightarrow> p_invoice_id p \<in> set (map inv_id (invoices s))"
      by (simp_all add: references_ok_def list_all_iff)
    with fresh have "\<And>r. r \<in> set (invoice_items s) \<Longrightarrow> it_invoice_id r \<noteq> ?id"
      and "\<And>p. p \<in> set (payments s) \<Longrightarrow> p_invoice_id p \<noteq> ?id"
      by metis+
    then have "filter (\<lambda>r. it_invoice_id r \<noteq> ?id) (invoice_items s) = invoice_items s"
      "filter (\<lambda>p. p_invoice_id p \<noteq> ?id) (payments s) = payments s"
      by (simp_all add: filter_id_conv)
    then have "?s' = s" by simp
    with A show ?thesis by simp
  qed
  have C: "?id \<notin> set (map it_invoice_id (invoice_items ?s'))"
    by auto
  from A B C fresh show ?thesis
    by (simp del: set_map)
qed

text \<open>A request whose only item has no description, on the store that holds a paid invoice
  with its items and its payment: the store after the request is the store before it.\<close>

theorem createInvoice_rollback_witness:
  "authenticate (ex_db_settled Free) ''u1'' = Inr (ex_user Free) \<and>
   single (filter (\<lambda>c. c_id c = cb_client_id ex_body_no_description \<and> c_user_id c = ''u1'')
     (clients (ex_db_settled Free))) = Some ex_client \<and>
   references_ok (ex_db_settled Free) \<and>
   map inv_id (invoices (ex_db_settled Free)) = [''i1''] \<and>
   length (invoice_items (ex_db_settled Free)) = 2 \<and>
   length (payments (ex_db_settled Free)) = 1 \<and>
   createInvoice (ex_db_settled Free) (ex_env (ex_time 2 0) ''a'') ''u1'' ex_body_no_description
     = (ex_db_settled Free,
        Inl (APIError ''Failed to create invoice items'' 500 ''INTERNAL_ERROR''))"
proof -
  let ?e = "ex_env (ex_time 2 0) ''a''"
  let ?b = ex_body_no_description
  let ?s = "ex_db_settled Free"
  let ?row = "stored_invoice (pg_date ?e) (new_invoice_row ?s ?e ''u1'' ?b)"
  let ?s1 = "?s\<lparr>invoices := invoices ?s @ [?row]\<rparr>"
  have a: "authenticate ?s ''u1'' = Inr (ex_user Free)"
    by (simp add: authenticate_def ex_db_settled_def ex_db1_def ex_db_def ex_user_def
          empty_db_def)
  have lim: "\<not> (u_plan (ex_user Free) = Free \<and> 5 \<le> month_count ?s ''u1'' (now ?e))"
    by (simp add: month_count_def ex_db_settled_def ex_db1_def ex_db_def empty_db_def)
  have cl: "single (filter (\<lambda>c. c_id c = cb_client_id ?b \<and> c_user_id c = ''u1'')
     (clients ?s)) = Some ex_client"
    by (simp add: ex_db_settled_def ex_db1_def ex_db_def ex_client_def
          ex_body_no_description_def ex_body_def empty_db_def)
  have ins: "insert_invoice (pg_date ?e) ?s (new_invoice_row ?s ?e ''u1'' ?b) = Some (?s1, ?row)"
    by (simp add: insert_invoice_def invoice_columns_ok_def decimal_ok_def varchar_ok_def
          fits_def dec_round_def floor_rat_numeral floor_rat_one new_invoice_row_def Let_def
          invoiceNumber_def getFullYear_def String_of.simps padStart_step [of 4] digit_char_def
          items_subtotal_def sanitizeString_def
          ex_db_settled_def ex_db1_def ex_db_def ex_invoice_def ex_env_def ex_time_def
          empty_db_def ex_body_no_description_def ex_body_def)
  have items: "insert_invoice_items ?s1 (item_rows ?e 1 (uuidv4 ?e 0) 0 (cb_items ?b)) = None"
    by (simp add: insert_invoice_items_def item_row_ok_def sanitizeString_def
          ex_body_no_description_def ex_body_def)
  have fk: "references_ok ?s"
    by (simp add: references_ok_def ex_db_settled_def ex_db1_def ex_db_def ex_invoice_def
          ex_item_rows_def ex_payment_def empty_db_def)
  have sz: "map inv_id (invoices ?s) = [''i1'']" "length (invoice_items ?s) = 2"
    "length (payments ?s) = 1"
    by (simp_all add: ex_db_settled_def ex_db1_def ex_db_def ex_invoice_def
          ex_item_rows_def empty_db_def)
  from createInvoice_rollback [OF a lim cl ins items, THEN conjunct2, THEN conjunct1] fk
  have "createInvoice ?s ?e ''u1'' ?b
     = (?s, Inl (APIError ''Failed to create invoice items'' 500 ''INTERNAL_ERROR''))"
    by (rule mp)
  with fk a cl sz show ?thesis
    by simp
qed

subsection \<open>Subscription deletion and reminders\<close>

text \<open>
  C7. The subscription-deleted handler sets every subscription row with the event's
  subscription id to cancelled, and every user with the event's customer id to the free
  plan with no subscription link. The other columns of the users, the users and
  subscription rows that do not match, and the other tables are left as they were.
\<close>

theorem handleSubscriptionDeleted_effect:
  "(\<forall>r \<in> set (subscriptions (handleSubscriptionDeleted s e sub)).
      sub_stripe_subscription_id r = Some (ss_id sub) \<longrightarrow> sub_status r = SubCancelled) \<and>
   (\<forall>u \<in> set (users (handleSubscriptionDeleted s e sub)).
      u_stripe_customer_id u = Some (ss_customer sub) \<longrightarrow>
        u_plan u = Free \<and> u_stripe_subscription_id u = None) \<and>
   map sub_stripe_subscription_id (subscriptions (handleSubscriptionDeleted s e sub))
     = map sub_stripe_subscription_id (subscriptions s) \<and>
   filter (\<lambda>r. sub_stripe_subscription_id r \<noteq> Some (ss_id sub))
       (subscriptions (handleSubscriptionDeleted s e sub))
     = filter (\<lambda>r. sub_stripe_subscription_id r \<noteq> Some (ss_id sub)) (subscriptions s) \<and>
   map u_id (users (handleSubscriptionDeleted s e sub)) = map u_id (users s) \<and>
   map u_email (users (handleSubscriptionDeleted s e sub)) = map u_email (users s) \<and>
   map u_name (users (handleSubscriptionDeleted s e sub)) = map u_name (users s) \<and>
   map u_plan_expires_at (users (handleSubscriptionDeleted s e sub))
     = map u_plan_expires_at (users s) \<and>
   map u_stripe_customer_id (users (handleSubscriptionDeleted s e sub))
     = map u_stripe_customer_id (users s) \<and>
   map u_is_active (users (handleSubscriptionDeleted s e sub)) = map u_is_active (users s) \<and>
   filter (\<lambda>u. u_stripe_customer_id u \<noteq> Some (ss_customer sub))
       (users (handleSubscriptionDeleted s e sub))
     = filter (\<lambda>u. u_stripe_customer_id u \<noteq> Some (ss_customer sub)) (users s) \<and>
   clients (handleSubscriptionDeleted s e sub) = clients s \<and>
   invoices (handleSubscriptionDeleted s e sub) = invoices s \<and>
   invoice_items (handleSubscriptionDeleted s e sub) = invoice_items s \<and>
   payments (handleSubscriptionDeleted s e sub) = payments s \<and>
   audit_logs (handleSubscriptionDeleted s e sub) = audit_logs s"
proof -
  let ?fu = "\<lambda>u. if u_stripe_customer_id u = Some (ss_customer sub)
                  then u\<lparr>u_plan := Free, u_stripe_subscription_id := None\<rparr> else u"
  let ?fr = "\<lambda>r. if sub_stripe_subscription_id r = Some (ss_id sub)
                  then r\<lparr>sub_status := SubCancelled, sub_cancelled_at := Some (now e)\<rparr> else r"
  have u: "users (handleSubscriptionDeleted s e sub) = map ?fu (users s)"
    and r: "subscriptions (handleSubscriptionDeleted s e sub) = map ?fr (subscriptions s)"
    by (simp_all add: handleSubscriptionDeleted_def)
  have fu: "filter (\<lambda>u. u_stripe_customer_id u \<noteq> Some (ss_customer sub)) (map ?fu xs)
      = filter (\<lambda>u. u_stripe_customer_id u \<noteq> Some (ss_customer sub)) xs" for xs
    by (induction xs) simp_all
  have fr: "filter (\<lambda>r. sub_stripe_subscription_id r \<noteq> Some (ss_id sub)) (map ?fr xs)
      = filter (\<lambda>r. sub_stripe_subscription_id r \<noteq> Some (ss_id sub)) xs" for xs
    by (induction xs) simp_all
  have rest: "clients (handleSubscriptionDeleted s e sub) = clients s"
    "invoices (handleSubscriptionDeleted s e sub) = invoices s"
    "invoice_items (handleSubscriptionDeleted s e sub) = invoice_items s"
    "payments (handleSubscriptionDeleted s e sub) = payments s"
    "audit_logs (handleSubscriptionDeleted s e sub) = audit_logs s"
    by (simp_all add: handleSubscriptionDeleted_def)
  show ?thesis
    unfolding u r rest fu fr by (auto simp: comp_def)
qed

theorem handleSubscriptionDeleted_effect_witness:
  "map sub_stripe_subscription_id (subscriptions ex_db_subscribed) = [Some (ss_id ex_stripe_subscription)] \<and>
   map u_stripe_customer_id (users ex_db_subscribed) = [Some (ss_customer ex_stripe_subscription)] \<and>
   map sub_status (subscriptions
     (handleSubscriptionDeleted ex_db_subscribed (ex_env (ex_time 4 0) ''w'') ex_stripe_subscription))
     = [SubCancelled] \<and>
   map u_plan (users
     (handleSubscriptionDeleted ex_db_subscribed (ex_env (ex_time 4 0) ''w'') ex_stripe_subscription))
     = [Free] \<and>
   map u_stripe_subscription_id (users
     (handleSubscriptionDeleted ex_db_subscribed (ex_env (ex_time 4 0) ''w'') ex_stripe_subscription))
     = [None] \<and>
   map u_email (users
     (handleSubscriptionDeleted ex_db_subscribed (ex_env (ex_time 4 0) ''w'') ex_stripe_subscription))
     = [''owner@x.com'']"
  using handleSubscriptionDeleted_effect
          [of ex_db_subscribed "ex_env (ex_time 4 0) ''w''" ex_stripe_subscription]
  by (simp add: handleSubscriptionDeleted_def ex_db_subscribed_def ex_db_def ex_user_def
        ex_subscription_def ex_stripe_subscription_def empty_db_def)




subsection \<open>One operation on the invoice table\<close>

lemma inv_trans_map:
  assumes "\<And>i. i \<in> set xs \<Longrightarrow> inv_id i = iid \<Longrightarrow>
             inv_id (g i) = iid \<and> inv_user_id (g i) = inv_user_id i \<and>
             inv_number (g i) = inv_number i \<and> (inv_status i = Paid \<longrightarrow> inv_status (g i) = Paid)"
  shows "inv_trans xs (map (\<lambda>i. if inv_id i = iid then g i else i) xs)"
  unfolding inv_trans_def using assms by blast

lemma inv_trans_ids:
  assumes t: "inv_trans xs ys" and d: "distinct (map inv_id xs)"
  shows "distinct (map inv_id ys)"
proof -
  from t consider (same) "ys = xs"
    | (upd) iid g where "ys = map (\<lambda>i. if inv_id i = iid then g i else i) xs"
        "\<forall>i \<in> set xs. inv_id i = iid \<longrightarrow> inv_id (g i) = iid"
    | (del) iid where "ys = filter (\<lambda>i. inv_id i \<noteq> iid) xs"
    | (ins) row where "ys = xs @ [row]" "inv_id row \<notin> set (map inv_id xs)"
    unfolding inv_trans_def by blast
  then show ?thesis
  proof cases
    case same
    with d show ?thesis by simp
  next
    case upd
    then have "map inv_id ys = map inv_id xs" by (auto simp: map_eq_conv)
    with d show ?thesis by simp
  next
    case del
    with d show ?thesis by (simp add: distinct_map_filter)
  next
    case ins
    with d show ?thesis by simp
  qed
qed

lemma inv_trans_numbers:
  assumes t: "inv_trans xs ys"
    and d: "distinct (map (\<lambda>i. (inv_user_id i, inv_number i)) xs)"
  shows "distinct (map (\<lambda>i. (inv_user_id i, inv_number i)) ys)"
proof -
  let ?k = "\<lambda>i. (inv_user_id i, inv_number i)"
  from t consider (same) "ys = xs"
    | (upd) iid g where "ys = map (\<lambda>i. if inv_id i = iid then g i else i) xs"
        "\<forall>i \<in> set xs. inv_id i = iid \<longrightarrow>
           inv_user_id (g i) = inv_user_id i \<and> inv_number (g i) = inv_number i"
    | (del) iid where "ys = filter (\<lambda>i. inv_id i \<noteq> iid) xs"
    | (ins) row where "ys = xs @ [row]" "?k row \<notin> set (map ?k xs)"
    unfolding inv_trans_def by blast
  then show ?thesis
  proof cases
    case same
    with d show ?thesis by simp
  next
    case upd
    then have "map ?k ys = map ?k xs" by (auto simp: map_eq_conv)
    with d show ?thesis by simp
  next
    case del
    with d show ?thesis by (simp add: distinct_map_filter)
  next
    case ins
    with d show ?thesis by simp
  qed
qed

lemma inv_trans_paid:
  assumes t: "inv_trans xs ys"
    and p: "iid \<in> set (map inv_id (filter (\<lambda>i. inv_status i = Paid) xs))"
  shows "iid \<in> set (map inv_id (filter (\<lambda>i. inv_status i = Paid) ys))"
proof -
  from p obtain x where x: "x \<in> set xs" "inv_status x = Paid" "inv_id x = iid" by auto
  from t consider (same) "ys = xs"
    | (upd) j g where "ys = map (\<lambda>i. if inv_id i = j then g i else i) xs"
        "\<forall>i \<in> set xs. inv_id i = j \<longrightarrow>
           inv_id (g i) = j \<and> (inv_status i = Paid \<longrightarrow> inv_status (g i) = Paid)"
    | (del) j where "ys = filter (\<lambda>i. inv_id i \<noteq> j) xs"
        "\<forall>i \<in> set xs. inv_id i = j \<longrightarrow> inv_status i \<noteq> Paid"
    | (ins) row where "ys = xs @ [row]"
    unfolding inv_trans_def by blast
  then show ?thesis
  proof cases
    case same
    with p show ?thesis by simp
  next
    case upd
    let ?y = "if inv_id x = j then g x else x"
    have "?y \<in> set ys" using upd(1) x(1) by force
    moreover have "inv_status ?y = Paid" "inv_id ?y = iid" using upd(2) x by auto
    ultimately show ?thesis by (auto simp: image_iff)
  next
    case del
    with x have "x \<in> set ys" by auto
    with x show ?thesis by (auto simp: image_iff)
  next
    case ins
    with x show ?thesis by (auto simp: image_iff)
  qed
qed

lemma inv_trans_number_fixed:
  assumes t: "inv_trans xs ys" and d: "distinct (map inv_id xs)"
    and x: "x \<in> set xs" and y: "y \<in> set ys" and e: "inv_id y = inv_id x"
  shows "inv_number y = inv_number x \<and> inv_user_id y = inv_user_id x"
proof -
  have uniq: "a = b" if "a \<in> set xs" "b \<in> set xs" "inv_id a = inv_id b" for a b
    using d that by (auto simp: distinct_map dest: inj_onD)
  from t consider (same) "ys = xs"
    | (upd) j g where "ys = map (\<lambda>i. if inv_id i = j then g i else i) xs"
        "\<forall>i \<in> set xs. inv_id i = j \<longrightarrow>
           inv_id (g i) = j \<and> inv_user_id (g i) = inv_user_id i \<and> inv_number (g i) = inv_number i"
    | (del) j where "ys = filter (\<lambda>i. inv_id i \<noteq> j) xs"
    | (ins) row where "ys = xs @ [row]" "inv_id row \<notin> set (map inv_id xs)"
    unfolding inv_trans_def by blast
  then show ?thesis
  proof cases
    case same
    with uniq [OF _ x] y e show ?thesis by auto
  next
    case upd
    from y upd(1) obtain z where z: "z \<in> set xs" "y = (if inv_id z = j then g z else z)"
      by auto
    with upd(2) have zy: "inv_id y = inv_id z" "inv_number y = inv_number z"
      "inv_user_id y = inv_user_id z" by auto
    with e have "z = x" using uniq [OF z(1) x] by simp
    with zy show ?thesis by simp
  next
    case del
    with y have "y \<in> set xs" by simp
    from uniq [OF this x e] show ?thesis by simp
  next
    case ins
    with y x e have "y \<in> set xs" by (auto simp: image_iff)
    from uniq [OF this x e] show ?thesis by simp
  qed
qed

lemma fetch_invoice_unique:
  assumes f: "fetch_invoice s iid uid = Some x" and d: "ids_unique s"
    and i: "i \<in> set (invoices s)" "inv_id i = iid"
  shows "i = x"
proof -
  have "x \<in> set (invoices s)" "inv_id x = iid"
    using fetch_invoice_SomeD [OF f] by simp_all
  with d i show ?thesis
    by (auto simp: ids_unique_def distinct_map dest: inj_onD)
qed

lemma invoices_insert_payment: "invoices (insert_payment s row) = invoices s"
  by (simp add: insert_payment_def split: option.splits)

lemma invoices_update_invoice_by_id:
  "invoices (update_invoice_by_id s iid g) = map (\<lambda>i. if inv_id i = iid then g i else i) (invoices s)"
  by (simp add: update_invoice_by_id_def)

lemma inv_trans_refl: "inv_trans xs xs"
  by (simp add: inv_trans_def)

lemma createInvoice_trans: "inv_trans (invoices s) (invoices (fst (createInvoice s e uid b)))"
proof -
  let ?row = "new_invoice_row s e uid b"
  have del: "invoices (delete_invoice_by_id s1 (inv_id ?row)) = invoices s"
    if ins: "insert_invoice (pg_date e) s ?row = Some (s1, r)" for s1 r
  proof -
    note i = insert_invoice_SomeD [OF ins]
    from i(4) have "filter (\<lambda>i. inv_id i \<noteq> inv_id ?row) (invoices s) = invoices s"
      by (auto simp: filter_id_conv intro: rev_image_eqI)
    then show ?thesis
      by (simp add: delete_invoice_by_id_def i(2) i(1) stored_invoice_keys)
  qed
  have ok: "inv_trans (invoices s) (invoices (insert_audit_log s2 a))"
    if ins: "insert_invoice (pg_date e) s ?row = Some (s1, r)"
      and items: "insert_invoice_items s1 rows = Some s2" for s1 s2 r rows a
  proof -
    note i = insert_invoice_SomeD [OF ins]
    from items have "invoices s2 = invoices s1"
      by (auto simp: insert_invoice_items_def split: if_splits)
    then have "invoices (insert_audit_log s2 a) = invoices s @ [r]"
      by (simp add: insert_audit_log_def i(2))
    moreover have "inv_id r \<notin> set (map inv_id (invoices s))"
      "(inv_user_id r, inv_number r)
         \<notin> set (map (\<lambda>i. (inv_user_id i, inv_number i)) (invoices s))"
      using i(4) i(5) by (simp_all add: i(1) stored_invoice_keys)
    ultimately show ?thesis unfolding inv_trans_def by blast
  qed
  have same: "inv_trans (invoices s) (invoices s)" by (simp add: inv_trans_def)
  show ?thesis
    using same del ok
    by (auto simp: createInvoice_def Let_def split: sum.splits option.splits)
qed

lemma updateInvoice_trans:
  assumes d: "ids_unique s"
  shows "inv_trans (invoices s) (invoices (fst (updateInvoice s e uid iid b)))"
proof (cases "fetch_invoice s iid uid")
  case None
  then show ?thesis
    by (simp add: updateInvoice_def inv_trans_refl split: sum.splits)
next
  case (Some existing)
  let ?tot = "map_option (recomputed_totals b existing) (ub_items b)"
  let ?s1 = "case ub_items b of None \<Rightarrow> s | Some items \<Rightarrow> replace_items s e iid items"
  have s1: "invoices ?s1 = invoices s"
    by (simp add: invoices_replace_items split: option.splits)
  have paid: "status_of_string ''paid'' = Some Paid"
    by (simp add: status_of_string_def)
  have upd: "inv_trans (invoices s)
      (invoices (update_invoice_by_id ?s1 iid (apply_updateData e b ?tot)))"
    if ok: "inv_status existing = Paid \<longrightarrow> ub_status b = Some ''paid''"
  proof -
    have "inv_trans (invoices s)
        (map (\<lambda>i. if inv_id i = iid then apply_updateData e b ?tot i else i) (invoices s))"
    proof (rule inv_trans_map)
      fix i assume i: "i \<in> set (invoices s)" "inv_id i = iid"
      then have "i = existing" by (rule fetch_invoice_unique [OF Some d])
      with ok i show "inv_id (apply_updateData e b ?tot i) = iid \<and>
          inv_user_id (apply_updateData e b ?tot i) = inv_user_id i \<and>
          inv_number (apply_updateData e b ?tot i) = inv_number i \<and>
          (inv_status i = Paid \<longrightarrow> inv_status (apply_updateData e b ?tot i) = Paid)"
        by (auto simp: apply_updateData_keys paid)
    qed
    then show ?thesis by (simp add: invoices_update_invoice_by_id s1)
  qed
  show ?thesis
  proof (cases "authenticate s uid")
    case (Inl err)
    then show ?thesis by (simp add: updateInvoice_def inv_trans_refl)
  next
    case (Inr u)
    show ?thesis
    proof (cases "inv_status existing = Paid \<and> ub_status b \<noteq> Some ''paid''")
      case True
      with Inr Some show ?thesis by (simp add: updateInvoice_def inv_trans_refl)
    next
      case False
      then have "inv_trans (invoices s)
          (invoices (update_invoice_by_id ?s1 iid (apply_updateData e b ?tot)))"
        by (intro upd) simp
      with Inr Some False s1 show ?thesis
        by (simp add: updateInvoice_def Let_def inv_trans_refl split: option.splits)
    qed
  qed
qed

lemma sendInvoice_trans:
  assumes d: "ids_unique s"
  shows "inv_trans (invoices s) (invoices (fst (sendInvoice s e uid iid)))"
proof -
  have "inv_trans (invoices s)
      (invoices (update_invoice_by_id s iid (\<lambda>i. i\<lparr>inv_status := Pending\<rparr>)))"
    if f: "fetch_invoice s iid uid = Some invoice" and st: "inv_status invoice = Draft"
    for invoice
    unfolding invoices_update_invoice_by_id
  proof (rule inv_trans_map)
    fix i assume i: "i \<in> set (invoices s)" "inv_id i = iid"
    then have "i = invoice" by (rule fetch_invoice_unique [OF f d])
    with st i show "inv_id (i\<lparr>inv_status := Pending\<rparr>) = iid \<and>
        inv_user_id (i\<lparr>inv_status := Pending\<rparr>) = inv_user_id i \<and>
        inv_number (i\<lparr>inv_status := Pending\<rparr>) = inv_number i \<and>
        (inv_status i = Paid \<longrightarrow> inv_status (i\<lparr>inv_status := Pending\<rparr>) = Paid)"
      by simp
  qed
  then show ?thesis
    by (auto simp: sendInvoice_def inv_trans_refl split: sum.splits option.splits)
qed

lemma remindInvoice_trans:
  "inv_trans (invoices s) (invoices (fst (remindInvoice s e uid iid)))"
proof -
  have "inv_trans (invoices s) (invoices (update_invoice_by_id s iid
          (\<lambda>i. i\<lparr>inv_reminder_sent_at := t, inv_reminder_count := n\<rparr>)))" for t n
    unfolding invoices_update_invoice_by_id by (rule inv_trans_map) simp
  then show ?thesis
    by (auto simp: remindInvoice_def inv_trans_refl split: sum.splits option.splits)
qed

lemma markPaid_trans:
  "inv_trans (invoices s) (invoices (fst (markPaid s e uid iid b)))"
proof -
  have "inv_trans (invoices s) (invoices (update_invoice_by_id s iid
          (\<lambda>i. i\<lparr>inv_status := Paid, inv_paid_at := t, inv_paid_amount := a,
                 inv_payment_method := m\<rparr>)))" for t a m
    unfolding invoices_update_invoice_by_id by (rule inv_trans_map) simp
  then show ?thesis
    by (auto simp: markPaid_def Let_def inv_trans_refl invoices_insert_payment
        split: sum.splits option.splits)
qed

lemma deleteInvoice_trans:
  assumes d: "ids_unique s"
  shows "inv_trans (invoices s) (invoices (fst (deleteInvoice s uid iid)))"
proof -
  have "inv_trans (invoices s) (invoices (delete_invoice_by_id s iid))"
    if f: "fetch_invoice s iid uid = Some invoice" and st: "inv_status invoice \<noteq> Paid"
    for invoice
  proof -
    have "\<forall>i \<in> set (invoices s). inv_id i = iid \<longrightarrow> inv_status i \<noteq> Paid"
      using fetch_invoice_unique [OF f d] st by blast
    then show ?thesis
      unfolding inv_trans_def by (auto simp: delete_invoice_by_id_def)
  qed
  then show ?thesis
    by (auto simp: deleteInvoice_def inv_trans_refl split: sum.splits option.splits)
qed

lemma handlePaymentIntentSucceeded_trans:
  "inv_trans (invoices s) (invoices (handlePaymentIntentSucceeded s e paymentIntent))"
proof -
  have "inv_trans (invoices s) (invoices (update_invoice_by_id s iid
          (\<lambda>i. i\<lparr>inv_status := Paid, inv_paid_at := t, inv_paid_amount := a,
                 inv_payment_method := m\<rparr>)))" for iid t a m
    unfolding invoices_update_invoice_by_id by (rule inv_trans_map) simp
  then show ?thesis
    by (auto simp: handlePaymentIntentSucceeded_def Let_def inv_trans_refl
        invoices_insert_payment split: option.splits)
qed

lemma step_trans:
  assumes "ids_unique s"
  shows "inv_trans (invoices s) (invoices (step s eo))"
proof (cases eo)
  case (Pair e o')
  show ?thesis
  proof (cases o')
    case (OpCreate uid b)
    with Pair show ?thesis by (simp add: createInvoice_trans)
  next
    case (OpUpdate uid iid b)
    with Pair assms show ?thesis by (simp add: updateInvoice_trans)
  next
    case (OpSend uid iid)
    with Pair assms show ?thesis by (simp add: sendInvoice_trans)
  next
    case (OpRemind uid iid)
    with Pair show ?thesis by (simp add: remindInvoice_trans)
  next
    case (OpMarkPaid uid iid b)
    with Pair show ?thesis by (simp add: markPaid_trans)
  next
    case (OpDelete uid iid)
    with Pair assms show ?thesis by (simp add: deleteInvoice_trans)
  next
    case (OpPaymentSucceeded paymentIntent)
    with Pair show ?thesis by (simp add: handlePaymentIntentSucceeded_trans)
  next
    case (OpSubscriptionDeleted sub)
    with Pair show ?thesis by (simp add: handleSubscriptionDeleted_def inv_trans_refl)
  qed
qed

lemma step_ids_unique: "ids_unique s \<Longrightarrow> ids_unique (step s eo)"
  unfolding ids_unique_def using inv_trans_ids step_trans ids_unique_def by blast

lemma step_numbers_unique: "ids_unique s \<Longrightarrow> numbers_unique s \<Longrightarrow> numbers_unique (step s eo)"
  unfolding numbers_unique_def using inv_trans_numbers step_trans by blast

lemma step_paid: "ids_unique s \<Longrightarrow> iid \<in> set (paid_ids s) \<Longrightarrow> iid \<in> set (paid_ids (step s eo))"
  unfolding paid_ids_def using inv_trans_paid step_trans by blast

lemma run_invariants:
  assumes "ids_unique s"
  shows "ids_unique (run s ops) \<and>
         (numbers_unique s \<longrightarrow> numbers_unique (run s ops)) \<and>
         (iid \<in> set (paid_ids s) \<longrightarrow> iid \<in> set (paid_ids (run s ops)))"
  using assms
proof (induction ops arbitrary: s)
  case Nil
  then show ?case by (simp add: run_def)
next
  case (Cons eo ops)
  have r: "run s (eo # ops) = run (step s eo) ops" by (simp add: run_def)
  from Cons.prems have u: "ids_unique (step s eo)" by (rule step_ids_unique)
  from Cons.IH [OF u] Cons.prems show ?case
    unfolding r using step_numbers_unique step_paid by blast
qed

subsection \<open>Invoice numbers\<close>

text \<open>Create, delete, create: the second invoice is another invoice and takes the number
  the first one had.\<close>

theorem invoice_number_reused_counterexample:
  "map_option inv_id (response_invoice
      (createInvoice (ex_db Pro) (ex_env (ex_time 2 0) ''a'') ''u1'' ex_body)) = Some ''a-0'' \<and>
   map_option inv_number (response_invoice
      (createInvoice (ex_db Pro) (ex_env (ex_time 2 0) ''a'') ''u1'' ex_body))
     = Some ''INV-2026-0001'' \<and>
   map_option inv_id (response_invoice
      (createInvoice
         (fst (deleteInvoice
                 (fst (createInvoice (ex_db Pro) (ex_env (ex_time 2 0) ''a'') ''u1'' ex_body))
                 ''u1'' ''a-0''))
         (ex_env (ex_time 2 9) ''b'') ''u1'' ex_body)) = Some ''b-0'' \<and>
   map_option inv_number (response_invoice
      (createInvoice
         (fst (deleteInvoice
                 (fst (createInvoice (ex_db Pro) (ex_env (ex_time 2 0) ''a'') ''u1'' ex_body))
                 ''u1'' ''a-0''))
         (ex_env (ex_time 2 9) ''b'') ''u1'' ex_body)) = Some ''INV-2026-0001''"
  by (simp add: response_invoice_def createInvoice_def deleteInvoice_def new_invoice_row_def
        Let_def authenticate_def fetch_invoice_def month_count_def invoiceNumber_def
        getFullYear_def String_of.simps padStart_step [of 4] digit_char_def sanitizeString_def
        insert_invoice_def stored_invoice_def invoice_columns_ok_def decimal_ok_def
        varchar_ok_def fits_def dec_round_def floor_rat_numeral floor_rat_one
        items_subtotal_def stored_item_def
        insert_invoice_items_def insert_audit_log_def delete_invoice_by_id_def
        item_row_ok_def ex_db_def ex_user_def ex_client_def ex_env_def ex_time_def ex_body_def
        ex_items_def empty_db_def)

text \<open>
  C5 (amended). Over every sequence of operations the invoices in the store keep pairwise
  distinct identifiers and pairwise distinct (tenant, number) pairs; no operation changes
  the number or the owner of an invoice that stays in the store; and a created invoice
  carries \<open>INV-\<close>, the year of the clock, \<open>-\<close> and the decimal text of the tenant's
  current invoice count plus one, filled with zeros to at least four digits (exactly four
  below 10000).
\<close>

theorem invoice_numbers_unique_and_fixed:
  assumes u: "ids_unique s" and n: "numbers_unique s"
  shows "ids_unique (run s ops) \<and> numbers_unique (run s ops) \<and>
     (\<forall>x \<in> set (invoices s). \<forall>y \<in> set (invoices (step s eo)).
        inv_id y = inv_id x \<longrightarrow> inv_number y = inv_number x \<and> inv_user_id y = inv_user_id x) \<and>
     (createInvoice s e uid b = (s', Inr (iv, rows)) \<longrightarrow>
        (let ordinal = length (filter (\<lambda>i. inv_user_id i = uid) (invoices s)) + 1;
             digits = padStart 4 (CHR ''0'') (String_of ordinal)
         in inv_number iv = ''INV-'' @ String_of (t_year (now e)) @ ''-'' @ digits \<and>
            4 \<le> length digits \<and> set digits \<subseteq> set ''0123456789'' \<and>
            (ordinal < 10000 \<longrightarrow> length digits = 4)))"
proof -
  have A: "ids_unique (run s ops) \<and> numbers_unique (run s ops)"
    using run_invariants [OF u, of ops] n by simp
  have B: "\<forall>x \<in> set (invoices s). \<forall>y \<in> set (invoices (step s eo)).
        inv_id y = inv_id x \<longrightarrow> inv_number y = inv_number x \<and> inv_user_id y = inv_user_id x"
    using inv_trans_number_fixed [OF step_trans [OF u, of eo]] u
    by (auto simp: ids_unique_def)
  have C: "let ordinal = length (filter (\<lambda>i. inv_user_id i = uid) (invoices s)) + 1;
             digits = padStart 4 (CHR ''0'') (String_of ordinal)
         in inv_number iv = ''INV-'' @ String_of (t_year (now e)) @ ''-'' @ digits \<and>
            4 \<le> length digits \<and> set digits \<subseteq> set ''0123456789'' \<and>
            (ordinal < 10000 \<longrightarrow> length digits = 4)"
    if c: "createInvoice s e uid b = (s', Inr (iv, rows))"
  proof -
    let ?ord = "length (filter (\<lambda>i. inv_user_id i = uid) (invoices s)) + 1"
    let ?ds = "padStart 4 (CHR ''0'') (String_of ?ord)"
    from c have "iv = stored_invoice (pg_date e) (new_invoice_row s e uid b)"
      by (rule createInvoice_InrD(1))
    then have 1: "inv_number iv = ''INV-'' @ String_of (t_year (now e)) @ ''-'' @ ?ds"
      by (simp add: stored_invoice_keys new_invoice_row_def Let_def invoiceNumber_def
            getFullYear_def)
    have 2: "4 \<le> length ?ds" by (simp add: length_padStart)
    have 3: "set ?ds \<subseteq> set ''0123456789''"
      using set_padStart [of 4 "CHR ''0''" "String_of ?ord"] String_of_digits [of ?ord]
      by auto
    have 4: "length ?ds = 4" if "?ord < 10000"
    proof -
      from that have "?ord < 10 ^ 4" by simp
      then have "length (String_of ?ord) \<le> 4" by (rule length_String_of) simp
      then show ?thesis by (simp add: length_padStart)
    qed
    from 1 2 3 4 show ?thesis by (simp add: Let_def)
  qed
  from A B C show ?thesis by blast
qed

text \<open>The store with the invoices 0001 and 0002. A creation takes 0003; after the deletion
  of 0001 a second creation computes 0003 again and is refused by the store; the table ends
  with 0002, paid, and 0003, updated.\<close>

theorem invoice_numbers_unique_and_fixed_witness:
  "ids_unique (ex_db2 Pro) \<and> numbers_unique (ex_db2 Pro) \<and>
   map inv_number (invoices (ex_db2 Pro)) = [''INV-2026-0001'', ''INV-2026-0002''] \<and>
   ids_unique (run (ex_db2 Pro) ex_ops2) \<and>
   numbers_unique (run (ex_db2 Pro) ex_ops2) \<and>
   map inv_id (invoices (run (ex_db2 Pro) ex_ops2)) = [''i2'', ''a-0''] \<and>
   map inv_number (invoices (run (ex_db2 Pro) ex_ops2)) = [''INV-2026-0002'', ''INV-2026-0003''] \<and>
   map inv_number (invoices (step (ex_db2 Pro)
      (ex_env (ex_time 3 3) ''d'', OpMarkPaid ''u1'' ''i2'' ex_markpaid_body)))
     = [''INV-2026-0001'', ''INV-2026-0002''] \<and>
   map_option inv_number (response_invoice
      (createInvoice (ex_db2 Pro) (ex_env (ex_time 3 0) ''a'') ''u1'' ex_body))
     = Some ''INV-2026-0003''"
proof -
  let ?s = "ex_db2 Pro"
  let ?e = "ex_env (ex_time 3 0) ''a''"
  let ?c = "createInvoice ?s ?e ''u1'' ex_body"
  let ?eo = "(ex_env (ex_time 3 3) ''d'', OpMarkPaid ''u1'' ''i2'' ex_markpaid_body)"
  let ?x1 = "ex_invoice ''i1'' ''INV-2026-0001'' Pending (ex_time 1 1000)"
  let ?x2 = "ex_invoice ''i2'' ''INV-2026-0002'' Pending (ex_time 1 2000)"
  have u: "ids_unique ?s" and n: "numbers_unique ?s"
    and m0: "map inv_number (invoices ?s) = [''INV-2026-0001'', ''INV-2026-0002'']"
    by (simp_all add: ids_unique_def numbers_unique_def ex_db2_def ex_db_def ex_invoice_def
          empty_db_def)
  have "\<exists>s' iv rows. ?c = (s', Inr (iv, rows))"
    by (simp add: createInvoice_def new_invoice_row_def Let_def authenticate_def
          month_count_def sanitizeString_def insert_invoice_def stored_invoice_def
          invoice_columns_ok_def decimal_ok_def varchar_ok_def fits_def
          dec_round_def floor_rat_numeral floor_rat_one insert_invoice_items_def
          insert_audit_log_def item_row_ok_def invoiceNumber_def getFullYear_def
          String_of.simps padStart_step [of 4] digit_char_def items_subtotal_def
          ex_db2_def ex_db_def ex_user_def ex_client_def ex_env_def ex_time_def ex_body_def
          ex_items_def ex_invoice_def empty_db_def)
  then obtain s' iv rows where c: "?c = (s', Inr (iv, rows))" by blast
  have x: "?x1 \<in> set (invoices ?s)" "?x2 \<in> set (invoices ?s)"
    by (simp_all add: ex_db2_def ex_db_def empty_db_def)
  have st: "map inv_id (invoices (step ?s ?eo)) = [''i1'', ''i2'']"
    by (simp add: markPaid_def Let_def authenticate_def fetch_invoice_def insert_payment_def
          payment_columns_ok_def stored_payment_def decimal_ok_def varchar_ok_def fits_def
          dec_round_def floor_rat_numeral floor_rat_one
          update_invoice_by_id_def ex_db2_def ex_db_def ex_user_def ex_invoice_def
          ex_markpaid_body_def empty_db_def)
  have run: "map inv_id (invoices (run ?s ex_ops2)) = [''i2'', ''a-0'']"
    "map inv_number (invoices (run ?s ex_ops2)) = [''INV-2026-0002'', ''INV-2026-0003'']"
    by (simp_all add: run_def ex_ops2_def
          createInvoice_def new_invoice_row_def Let_def authenticate_def
          month_count_def sanitizeString_def insert_invoice_def stored_invoice_def
          invoice_columns_ok_def decimal_ok_def varchar_ok_def fits_def
          dec_round_def floor_rat_numeral floor_rat_one insert_invoice_items_def
          insert_audit_log_def item_row_ok_def stored_item_def invoiceNumber_def getFullYear_def
          String_of.simps padStart_step [of 4] digit_char_def items_subtotal_def
          deleteInvoice_def delete_invoice_by_id_def fetch_invoice_def
          markPaid_def insert_payment_def payment_columns_ok_def stored_payment_def
          update_invoice_by_id_def
          updateInvoice_def updateData_ok_def apply_updateData_def set_totals_def
          recomputed_totals_def replace_items_def delete_items_of_def js_or_def num_def
          ts_le_def setDate_def
          ex_db2_def ex_db_def ex_user_def ex_client_def ex_env_def ex_time_def ex_body_def
          ex_items_def ex_invoice_def ex_markpaid_body_def ex_update_body_items_def
          empty_db_def)
  note t = invoice_numbers_unique_and_fixed [OF u n, of ex_ops2 ?eo ?e "''u1''" ex_body s' iv rows]
  from t have r: "ids_unique (run ?s ex_ops2)" "numbers_unique (run ?s ex_ops2)"
    by simp_all
  from t x have fx: "\<And>y. y \<in> set (invoices (step ?s ?eo)) \<Longrightarrow> inv_id y = ''i1''
        \<Longrightarrow> inv_number y = ''INV-2026-0001''"
    "\<And>y. y \<in> set (invoices (step ?s ?eo)) \<Longrightarrow> inv_id y = ''i2''
        \<Longrightarrow> inv_number y = ''INV-2026-0002''"
    by (auto simp: ex_invoice_def)
  from t c have nr: "inv_number iv = ''INV-'' @ String_of (t_year (now ?e)) @ ''-'' @
        padStart 4 (CHR ''0'')
          (String_of (length (filter (\<lambda>i. inv_user_id i = ''u1'') (invoices ?s)) + 1))"
    by (simp add: Let_def)
  from st obtain y1 y2 where y: "invoices (step ?s ?eo) = [y1, y2]"
    "inv_id y1 = ''i1''" "inv_id y2 = ''i2''"
    by (auto simp: map_eq_Cons_conv)
  with fx have m: "map inv_number (invoices (step ?s ?eo)) = [''INV-2026-0001'', ''INV-2026-0002'']"
    by simp
  have "inv_number iv = ''INV-2026-0003''"
    unfolding nr
    by (simp add: String_of.simps padStart_step [of 4] digit_char_def ex_env_def ex_time_def
          ex_db2_def ex_db_def ex_invoice_def empty_db_def)
  with u n m0 r run m c show ?thesis
    by (simp add: response_invoice_def)
qed

subsection \<open>Terminal states\<close>

text \<open>A cancelled invoice is marked paid, set back to draft by an update, and removed by a
  delete; on a paid invoice mark-paid and an update carrying the status \<open>paid\<close> succeed.\<close>

theorem cancelled_not_terminal_counterexample:
  "map inv_status (invoices (ex_db1 Pro Cancelled)) = [Cancelled] \<and>
   snd (markPaid (ex_db1 Pro Cancelled) (ex_env (ex_time 3 0) ''p'') ''u1'' ''i1'' ex_markpaid_body)
     = Inr () \<and>
   map inv_status (invoices
     (fst (markPaid (ex_db1 Pro Cancelled) (ex_env (ex_time 3 0) ''p'') ''u1'' ''i1'' ex_markpaid_body)))
     = [Paid] \<and>
   snd (markPaid (ex_db1 Pro Paid) (ex_env (ex_time 3 0) ''p'') ''u1'' ''i1'' ex_markpaid_body)
     = Inr () \<and>
   map inv_status (invoices
     (fst (updateInvoice (ex_db1 Pro Cancelled) (ex_env (ex_time 3 0) ''p'') ''u1'' ''i1''
        (ex_update_body\<lparr>ub_status := Some ''draft''\<rparr>))))
     = [Draft] \<and>
   deleteInvoice (ex_db1 Pro Cancelled) ''u1'' ''i1'' = (ex_db Pro, Inr ()) \<and>
   map_option inv_status
     (updated_invoice (updateInvoice (ex_db1 Pro Paid) (ex_env (ex_time 3 0) ''p'') ''u1'' ''i1''
        (ex_update_body\<lparr>ub_status := Some ''paid''\<rparr>)))
     = Some Paid"
  by (simp add: markPaid_def deleteInvoice_def updateInvoice_def updated_invoice_def
        Let_def authenticate_def fetch_invoice_def update_invoice_by_id_def
        delete_invoice_by_id_def
        insert_payment_def payment_columns_ok_def stored_payment_def decimal_ok_def
        varchar_ok_def fits_def dec_round_def floor_rat_numeral floor_rat_one
        updateData_ok_def apply_updateData_def set_totals_def recomputed_totals_def
        replace_items_def delete_items_of_def insert_invoice_items_def item_row_ok_def
        stored_item_def items_subtotal_def js_or_def num_def status_of_string_def
        sanitizeString_def
        ex_db1_def ex_db_def ex_user_def ex_invoice_def ex_env_def ex_markpaid_body_def
        ex_update_body_def ex_items_def empty_db_def)

text \<open>
  C3 (amended). Only \<open>paid\<close> is terminal. In a store with distinct invoice identifiers, an
  invoice that is paid is still in the store and still paid after every sequence of
  operations (create, update, send, remind, mark-paid, delete, reconciled events). On
  such an invoice delete fails with \<open>Cannot delete a paid invoice\<close> (400) and an update
  whose status is not \<open>paid\<close> fails with \<open>Cannot modify a paid invoice\<close> (400), both
  leaving the store unchanged. Nothing guards \<open>cancelled\<close>.
\<close>

theorem paid_is_terminal:
  assumes u: "ids_unique s" and p: "iid \<in> set (paid_ids s)"
  shows "iid \<in> set (paid_ids (run s ops)) \<and>
     (authenticate s uid = Inr usr \<and> fetch_invoice s iid uid = Some invoice \<longrightarrow>
        deleteInvoice s uid iid
          = (s, Inl (APIError ''Cannot delete a paid invoice'' 400 ''INTERNAL_ERROR'')) \<and>
        (ub_status b \<noteq> Some ''paid'' \<longrightarrow>
           updateInvoice s e uid iid b
             = (s, Inl (APIError ''Cannot modify a paid invoice'' 400 ''INTERNAL_ERROR''))))"
proof -
  have A: "iid \<in> set (paid_ids (run s ops))"
    using run_invariants [OF u, of ops iid] p by simp
  have B: "deleteInvoice s uid iid
          = (s, Inl (APIError ''Cannot delete a paid invoice'' 400 ''INTERNAL_ERROR'')) \<and>
        (ub_status b \<noteq> Some ''paid'' \<longrightarrow>
           updateInvoice s e uid iid b
             = (s, Inl (APIError ''Cannot modify a paid invoice'' 400 ''INTERNAL_ERROR'')))"
    if a: "authenticate s uid = Inr usr" and f: "fetch_invoice s iid uid = Some invoice"
  proof -
    from p obtain x where x: "x \<in> set (invoices s)" "inv_id x = iid" "inv_status x = Paid"
      by (auto simp: paid_ids_def)
    from fetch_invoice_unique [OF f u x(1,2)] x(3) have "inv_status invoice = Paid" by simp
    with a f show ?thesis
      by (simp add: deleteInvoice_def updateInvoice_def APIError2_def)
  qed
  from A B show ?thesis by blast
qed

theorem paid_is_terminal_witness:
  "ids_unique (ex_db1 Pro Paid) \<and> ''i1'' \<in> set (paid_ids (ex_db1 Pro Paid)) \<and>
   authenticate (ex_db1 Pro Paid) ''u1'' = Inr (ex_user Pro) \<and>
   fetch_invoice (ex_db1 Pro Paid) ''i1'' ''u1''
     = Some (ex_invoice ''i1'' ''INV-2026-0001'' Paid (ex_time 1 1000)) \<and>
   ''i1'' \<in> set (paid_ids (run (ex_db1 Pro Paid) ex_ops)) \<and>
   deleteInvoice (ex_db1 Pro Paid) ''u1'' ''i1''
     = (ex_db1 Pro Paid, Inl (APIError ''Cannot delete a paid invoice'' 400 ''INTERNAL_ERROR'')) \<and>
   updateInvoice (ex_db1 Pro Paid) (ex_env (ex_time 3 0) ''a'') ''u1'' ''i1''
       (ex_update_body\<lparr>ub_status := Some ''cancelled''\<rparr>)
     = (ex_db1 Pro Paid, Inl (APIError ''Cannot modify a paid invoice'' 400 ''INTERNAL_ERROR''))"
proof -
  have u: "ids_unique (ex_db1 Pro Paid)"
    by (simp add: ids_unique_def ex_db1_def ex_db_def empty_db_def)
  have p: "''i1'' \<in> set (paid_ids (ex_db1 Pro Paid))"
    by (simp add: paid_ids_def ex_db1_def ex_db_def ex_invoice_def empty_db_def)
  have a: "authenticate (ex_db1 Pro Paid) ''u1'' = Inr (ex_user Pro)"
    by (simp add: authenticate_def ex_db1_def ex_db_def ex_user_def empty_db_def)
  have f: "fetch_invoice (ex_db1 Pro Paid) ''i1'' ''u1''
     = Some (ex_invoice ''i1'' ''INV-2026-0001'' Paid (ex_time 1 1000))"
    by (simp add: fetch_invoice_def ex_db1_def ex_db_def ex_invoice_def empty_db_def)
  have b: "ub_status (ex_update_body\<lparr>ub_status := Some ''cancelled''\<rparr>) \<noteq> Some ''paid''"
    by simp
  from paid_is_terminal [OF u p, of ex_ops "''u1''" "ex_user Pro"
         "ex_invoice ''i1'' ''INV-2026-0001'' Paid (ex_time 1 1000)"
         "ex_update_body\<lparr>ub_status := Some ''cancelled''\<rparr>" "ex_env (ex_time 3 0) ''a''"]
       u p a f b
  show ?thesis by simp
qed

subsection \<open>The free plan's monthly limit\<close>

text \<open>
  C6. The free plan's usage query counts from \<open>new Date(new Date().setDate(1))\<close>, the
  first of the month at the current time of day, not from the start of the month. With five
  invoices created on the first shortly after midnight and a request on the second later
  in the day (noon), the calendar month holds five invoices of the tenant, the query counts none
  of them, and the sixth creation succeeds.
\<close>

theorem free_plan_limit_misses_first_day:
  "u_plan (ex_user Free) = Free \<and>
   calendar_month_count ex_db5 ''u1'' (ex_time 2 43200000) = 5 \<and>
   month_count ex_db5 ''u1'' (ex_time 2 43200000) = 0 \<and>
   map_option inv_number (response_invoice
      (createInvoice ex_db5 (ex_env (ex_time 2 43200000) ''f'') ''u1'' ex_body))
     = Some ''INV-2026-0006''"
  by (simp add: response_invoice_def createInvoice_def new_invoice_row_def calendar_month_count_def
        Let_def authenticate_def month_count_def ts_le_def setDate_def invoiceNumber_def
        getFullYear_def String_of.simps padStart_step [of 4] digit_char_def sanitizeString_def
        insert_invoice_def stored_invoice_def invoice_columns_ok_def decimal_ok_def
        varchar_ok_def fits_def dec_round_def floor_rat_numeral floor_rat_one
        items_subtotal_def insert_invoice_items_def insert_audit_log_def
        item_row_ok_def ex_db5_def ex_db_def ex_user_def ex_client_def ex_env_def ex_time_def
        ex_body_def ex_items_def ex_invoice_def empty_db_def)

end
